theory Spec2Isabelle
  imports Complex_Main
begin

section \<open>The CPU ray tracer of lab4: data model\<close>

text \<open>
  The development embeds \<^verbatim>\<open>src/lab4/2023080909014_WuXi_lab4.cpp\<close>.
  The C++ type \<^verbatim>\<open>float\<close> is read as \<^typ>\<open>real\<close>: arithmetic is exact, there is
  no rounding and no overflow.  The one place where the source relies on the IEEE
  special values (the reciprocal direction of \<^verbatim>\<open>Box::intersect\<close>) carries them
  explicitly, see \<open>xfloat\<close> below.  Elsewhere a division is guarded by the source
  (\<^verbatim>\<open>normalize\<close>, \<^verbatim>\<open>planeIntersect\<close>), or has a divisor that is not zero, but for
  three cases left as HOL has them (\<open>x / 0 = 0\<close>): the quadratic of a ray with the zero
  direction, which misses in the source and in the model, and \<open>1 / eta\<close> and the \<open>R0\<close>
  of Schlick's formula for a material with \<open>eta = 0\<close> or \<open>eta = -1\<close>.
\<close>

subsection \<open>Vector3 (lines 52-78)\<close>

text \<open>
  The three components are called \<open>vx\<close>, \<open>vy\<close>, \<open>vz\<close> (the source has \<open>x\<close>, \<open>y\<close>,
  \<open>z\<close>, which would capture the variables of every later statement).  The operators
  \<^verbatim>\<open>+\<close>, \<^verbatim>\<open>-\<close>, \<^verbatim>\<open>* float\<close> and \<^verbatim>\<open>* Vector3\<close> are \<open>vadd\<close>, \<open>vsub\<close>, \<open>vscale\<close> and
  \<open>vmul\<close>; \<^verbatim>\<open>length\<close> and \<^verbatim>\<open>normalize\<close> carry the suffix \<open>_vec\<close>.
\<close>

datatype Vector3 = Vector3 (vx: real) (vy: real) (vz: real)

definition vadd :: "Vector3 \<Rightarrow> Vector3 \<Rightarrow> Vector3" where
  "vadd a b = Vector3 (vx a + vx b) (vy a + vy b) (vz a + vz b)"

definition vsub :: "Vector3 \<Rightarrow> Vector3 \<Rightarrow> Vector3" where
  "vsub a b = Vector3 (vx a - vx b) (vy a - vy b) (vz a - vz b)"

definition vscale :: "Vector3 \<Rightarrow> real \<Rightarrow> Vector3" where
  "vscale a s = Vector3 (vx a * s) (vy a * s) (vz a * s)"

definition vmul :: "Vector3 \<Rightarrow> Vector3 \<Rightarrow> Vector3" where
  "vmul a b = Vector3 (vx a * vx b) (vy a * vy b) (vz a * vz b)"

definition dot :: "Vector3 \<Rightarrow> Vector3 \<Rightarrow> real" where
  "dot a b = vx a * vx b + vy a * vy b + vz a * vz b"

definition cross :: "Vector3 \<Rightarrow> Vector3 \<Rightarrow> Vector3" where
  "cross a b = Vector3 (vy a * vz b - vz a * vy b) (vz a * vx b - vx a * vz b)
                       (vx a * vy b - vy a * vx b)"

definition length_vec :: "Vector3 \<Rightarrow> real" where
  "length_vec a = sqrt (vx a * vx a + vy a * vy a + vz a * vz a)"

definition normalize_vec :: "Vector3 \<Rightarrow> Vector3" where
  "normalize_vec a =
     (let len = sqrt (vx a * vx a + vy a * vy a + vz a * vz a)
      in if len > 0 then vscale a (1 / len) else a)"

subsection \<open>Ray (lines 81-84)\<close>

record Ray =
  origin :: Vector3
  direction :: Vector3

text \<open>The constructor \<^verbatim>\<open>Ray(o, d)\<close> normalizes the direction.\<close>

definition mk_Ray :: "Vector3 \<Rightarrow> Vector3 \<Rightarrow> Ray" where
  "mk_Ray o_pt d = \<lparr>origin = o_pt, direction = normalize_vec d\<rparr>"

subsection \<open>Material (lines 87-94)\<close>

record Material =
  color :: Vector3
  ka :: real
  kd :: real
  ks :: real
  kr :: real
  shininess :: real
  eta :: real
  roughness :: real
  isRefractive :: bool
  isMetallic :: bool

text \<open>The default member initializers of \<^verbatim>\<open>Material\<close>.\<close>

definition default_Material :: Material where
  "default_Material =
     \<lparr>color = Vector3 0 0 0, ka = 0.1, kd = 0.8, ks = 0.2, kr = 0, shininess = 32,
      eta = 1, roughness = 0, isRefractive = False, isMetallic = False\<rparr>"

subsection \<open>Sphere (lines 97-115)\<close>

record Sphere =
  center :: Vector3
  radius :: real
  mat :: Material

text \<open>
  \<^verbatim>\<open>Sphere::intersect\<close> returns \<^verbatim>\<open>true\<close> and the distance through the reference
  \<open>t\<close>: here \<open>Some t\<close>; \<^verbatim>\<open>false\<close> is \<open>None\<close> (no caller reads \<open>t\<close> then).
\<close>

definition Sphere_intersect :: "Sphere \<Rightarrow> Ray \<Rightarrow> real option" where
  "Sphere_intersect sp ray =
     (let oc = vsub (origin ray) (center sp);
          a = dot (direction ray) (direction ray);
          b = 2 * dot oc (direction ray);
          c = dot oc oc - radius sp * radius sp;
          discriminant = b * b - 4 * a * c
      in if discriminant < 0 then None
         else let t = (- b - sqrt discriminant) / (2 * a)
              in if t > 0.001 then Some t
                 else let t = (- b + sqrt discriminant) / (2 * a)
                      in if t > 0.001 then Some t else None)"

subsection \<open>Box (lines 118-168)\<close>

record Box =
  bmin :: Vector3
  bmax :: Vector3
  bmat :: Material

text \<open>
  \<^verbatim>\<open>Box::intersect\<close> divides by the components of the direction without a test
  (line 125) and relies on IEEE arithmetic when one of them is zero.  The slab distances
  are therefore values of \<open>xfloat\<close>: a finite real, an infinity or NaN.  A product with
  an infinity follows IEEE (\<open>0 * inf\<close> is NaN) and every comparison with NaN is false.
  Zero has no sign in the model: \<open>1 / 0\<close> is \<open>PInf\<close>, as for the C++ \<open>+0\<close> (a
  component \<open>-0\<close>, whose reciprocal is the negative infinity, is not told apart).
\<close>

datatype xfloat = Fin real | PInf | MInf | NaN

definition recip :: "real \<Rightarrow> xfloat" where
  "recip d = (if d = 0 then PInf else Fin (1 / d))"

fun xmul :: "real \<Rightarrow> xfloat \<Rightarrow> xfloat" where
  "xmul a (Fin r) = Fin (a * r)"
| "xmul a PInf = (if a > 0 then PInf else if a < 0 then MInf else NaN)"
| "xmul a MInf = (if a > 0 then MInf else if a < 0 then PInf else NaN)"
| "xmul a NaN = NaN"

fun xgt :: "xfloat \<Rightarrow> xfloat \<Rightarrow> bool" where
  "xgt NaN b = False"
| "xgt a NaN = False"
| "xgt (Fin a) (Fin b) = (a > b)"
| "xgt (Fin a) PInf = False"
| "xgt (Fin a) MInf = True"
| "xgt PInf PInf = False"
| "xgt PInf b = True"
| "xgt MInf b = False"

definition xlt :: "xfloat \<Rightarrow> xfloat \<Rightarrow> bool" where
  "xlt a b = xgt b a"

text \<open>
  The result of \<^verbatim>\<open>Box::intersect\<close>: \<open>Miss\<close> is \<^verbatim>\<open>false\<close>, \<open>Hit t normal\<close> is
  \<^verbatim>\<open>true\<close> with a finite distance, and \<open>HitNaN\<close> is \<^verbatim>\<open>true\<close> with \<open>t\<close> NaN (both range
  tests of line 147 are false on NaN).  Every caller compares \<open>t\<close> next, and the
  comparison is false on NaN.
\<close>

datatype BoxResult = Miss | Hit real Vector3 | HitNaN

text \<open>Lines 150-165: the face normal at distance \<open>t\<close>.\<close>

definition box_normal :: "Box \<Rightarrow> Ray \<Rightarrow> real \<Rightarrow> Vector3" where
  "box_normal bx ray t =
     (let hitPoint = vadd (origin ray) (vscale (direction ray) t);
          eps = 0.001;
          normal =
            (if \<bar>vx hitPoint - vx (bmin bx)\<bar> < eps \<and> vx (direction ray) < 0
               then Vector3 (- 1) 0 0
             else if \<bar>vx hitPoint - vx (bmax bx)\<bar> < eps \<and> vx (direction ray) > 0
               then Vector3 1 0 0
             else if \<bar>vy hitPoint - vy (bmin bx)\<bar> < eps \<and> vy (direction ray) < 0
               then Vector3 0 (- 1) 0
             else if \<bar>vy hitPoint - vy (bmax bx)\<bar> < eps \<and> vy (direction ray) > 0
               then Vector3 0 1 0
             else if \<bar>vz hitPoint - vz (bmin bx)\<bar> < eps \<and> vz (direction ray) < 0
               then Vector3 0 0 (- 1)
             else if \<bar>vz hitPoint - vz (bmax bx)\<bar> < eps \<and> vz (direction ray) > 0
               then Vector3 0 0 1
             else Vector3 0 0 0)
      in if length_vec normal = 0
         then (let center = vscale (vadd (bmin bx) (bmax bx)) 0.5
               in normalize_vec (vsub hitPoint center))
         else normal)"

definition Box_intersect :: "Box \<Rightarrow> Ray \<Rightarrow> BoxResult" where
  "Box_intersect bx ray =
     (let invDirx = recip (vx (direction ray));
          invDiry = recip (vy (direction ray));
          invDirz = recip (vz (direction ray));
          tMin0 = xmul (vx (bmin bx) - vx (origin ray)) invDirx;
          tMax0 = xmul (vx (bmax bx) - vx (origin ray)) invDirx;
          tMin1 = (if xgt tMin0 tMax0 then tMax0 else tMin0);
          tMax1 = (if xgt tMin0 tMax0 then tMin0 else tMax0);
          tyMin0 = xmul (vy (bmin bx) - vy (origin ray)) invDiry;
          tyMax0 = xmul (vy (bmax bx) - vy (origin ray)) invDiry;
          tyMin = (if xgt tyMin0 tyMax0 then tyMax0 else tyMin0);
          tyMax = (if xgt tyMin0 tyMax0 then tyMin0 else tyMax0)
      in if xgt tMin1 tyMax \<or> xgt tyMin tMax1 then Miss
         else
           let tMin2 = (if xgt tyMin tMin1 then tyMin else tMin1);
               tMax2 = (if xlt tyMax tMax1 then tyMax else tMax1);
               tzMin0 = xmul (vz (bmin bx) - vz (origin ray)) invDirz;
               tzMax0 = xmul (vz (bmax bx) - vz (origin ray)) invDirz;
               tzMin = (if xgt tzMin0 tzMax0 then tzMax0 else tzMin0);
               tzMax = (if xgt tzMin0 tzMax0 then tzMin0 else tzMax0)
           in if xgt tMin2 tzMax \<or> xgt tzMin tMax2 then Miss
              else
                let tMin3 = (if xgt tzMin tMin2 then tzMin else tMin2)
                in (case tMin3 of
                      Fin t \<Rightarrow>
                        if t < 0.001 \<or> t > 1000 then Miss else Hit t (box_normal bx ray t)
                    | PInf \<Rightarrow> Miss
                    | MInf \<Rightarrow> Miss
                    | NaN \<Rightarrow> HitNaN))"

subsection \<open>Gradient noise (lines 173-236)\<close>

definition interpolate :: "real \<Rightarrow> real \<Rightarrow> real \<Rightarrow> real" where
  "interpolate a b t = (1 - t) * a + t * b"

definition interpolate_vec :: "Vector3 \<Rightarrow> Vector3 \<Rightarrow> real \<Rightarrow> Vector3" where
  "interpolate_vec a b t = vadd (vscale a (1 - t)) (vscale b t)"

definition fade :: "real \<Rightarrow> real" where
  "fade t = t * t * t * (t * (t * 6 - 15) + 10)"

definition grad :: "int \<Rightarrow> real \<Rightarrow> real \<Rightarrow> real" where
  "grad hash x y =
     (let h = hash mod 16
      in if h = 0 then x + y
         else if h = 1 then - x + y
         else if h = 2 then x - y
         else if h = 3 then - x - y
         else if h = 4 then x
         else if h = 5 then - x
         else if h = 6 then y
         else if h = 7 then - y
         else 0)"

text \<open>
  The permutation table \<^verbatim>\<open>p[512]\<close> is a parameter: \<^verbatim>\<open>initPerlinNoise\<close> fills it
  from a shuffle of \<open>0..255\<close>, written twice.  The shuffle is an input of the model.
\<close>

definition initPerlinNoise :: "int list \<Rightarrow> int list" where
  "initPerlinNoise shuffled = take 256 shuffled @ take 256 shuffled"

definition perlinNoise :: "int list \<Rightarrow> real \<Rightarrow> real \<Rightarrow> real" where
  "perlinNoise p x y =
     (let X = \<lfloor>x\<rfloor> mod 256;
          Y = \<lfloor>y\<rfloor> mod 256;
          x1 = x - of_int \<lfloor>x\<rfloor>;
          y1 = y - of_int \<lfloor>y\<rfloor>;
          u = fade x1;
          v = fade y1;
          A = p ! nat X + Y;
          B = p ! nat (X + 1) + Y
      in interpolate
           (interpolate (grad (p ! nat A) x1 y1) (grad (p ! nat B) (x1 - 1) y1) u)
           (interpolate (grad (p ! nat (A + 1)) x1 (y1 - 1))
                        (grad (p ! nat (B + 1)) (x1 - 1) (y1 - 1)) u)
           v)"

section \<open>The scene and Scene::trace\<close>

subsection \<open>Scene (lines 241-249) and the globals\<close>

record Scene =
  spheres :: "Sphere list"
  boxes :: "Box list"
  lightPos :: Vector3
  lightColor :: Vector3
  bgColor :: Vector3
  cameraPos :: Vector3
  lookAt :: Vector3
  fov :: real

text \<open>
  The globals \<^verbatim>\<open>trace\<close> reads: the permutation table, and the random generator, whose
  successive values \<^verbatim>\<open>dist_neg_pos_one(rng)\<close> are the sequence \<open>draws\<close>; the state that
  \<^verbatim>\<open>trace\<close> threads is the number of values drawn so far.
\<close>

record Globals =
  ptable :: "int list"
  draws :: "nat \<Rightarrow> real"

text \<open>The default member initializers of \<^verbatim>\<open>Scene\<close>, with no sphere and no box.\<close>

definition default_Scene :: Scene where
  "default_Scene =
     \<lparr>spheres = [], boxes = [], lightPos = Vector3 0 2.9 0,
      lightColor = Vector3 1.5 1.5 1.5, bgColor = Vector3 0.85 0.85 0.85,
      cameraPos = Vector3 0 1.5 2.5, lookAt = Vector3 0 1.5 0, fov = 90 * pi / 180\<rparr>"

text \<open>The scene that \<^verbatim>\<open>init()\<close> builds (lines 632-674).\<close>

definition redMirror :: Material where
  "redMirror = default_Material\<lparr>color := Vector3 0.9 0.1 0.1, ka := 0.05, kd := 0,
     ks := 0.9, kr := 1, shininess := 100, roughness := 0, isMetallic := False\<rparr>"

definition glass :: Material where
  "glass = default_Material\<lparr>color := Vector3 0.95 0.95 0.95, ka := 0, kd := 0, ks := 0.1,
     kr := 0, eta := 1.5, isRefractive := True, isMetallic := False, roughness := 0\<rparr>"

definition gold :: Material where
  "gold = default_Material\<lparr>color := Vector3 1 0.76 0.33, ka := 0.1, kd := 0.05, ks := 1,
     kr := 0.9, shininess := 200, roughness := 0.2, isRefractive := False,
     isMetallic := True, eta := 1\<rparr>"

definition woodBox :: Material where
  "woodBox = default_Material\<lparr>color := Vector3 0.5 0.3 0.15, ka := 0.1, kd := 0.75,
     ks := 0.1, kr := 0, shininess := 15, isMetallic := False, roughness := 0.05\<rparr>"

definition init_Scene :: Scene where
  "init_Scene = default_Scene
     \<lparr>spheres :=
        [\<lparr>center = Vector3 (- 1) 0.4 0.5, radius = 0.4, mat = redMirror\<rparr>,
         \<lparr>center = Vector3 0 0.4 (- 0.2), radius = 0.4, mat = glass\<rparr>,
         \<lparr>center = Vector3 0.85 0.25 0.6, radius = 0.25, mat = gold\<rparr>],
      boxes :=
        [\<lparr>bmin = Vector3 0.5 0 (- 1.3), bmax = Vector3 1.3 1 (- 0.5), bmat = woodBox\<rparr>]\<rparr>"

subsection \<open>planeIntersect (lines 258-265)\<close>

definition planeIntersect :: "Ray \<Rightarrow> Vector3 \<Rightarrow> Vector3 \<Rightarrow> real option" where
  "planeIntersect ray point normal =
     (let denom = dot normal (direction ray)
      in if \<bar>denom\<bar> > 0.001
         then (let t = dot (vsub point (origin ray)) normal / denom
               in if t > 0.001 then Some t else None)
         else None)"

subsection \<open>getWoodTextureColor (lines 268-303)\<close>

definition getWoodTextureColor :: "int list \<Rightarrow> Vector3 \<Rightarrow> Vector3 \<Rightarrow> Vector3" where
  "getWoodTextureColor p hitPoint normal =
     (let lightWood = Vector3 0.65 0.45 0.25;
          darkWood = Vector3 0.45 0.25 0.1;
          scale = 10;
          stripeDensity = 0.3;
          noiseStrength = 0.3;
          (stripeCoord, noiseVal) =
            (if \<bar>vy normal\<bar> > 0.9
               then (vz hitPoint * scale,
                     perlinNoise p (vx hitPoint * scale * 0.5) (vz hitPoint * scale * 0.5))
             else if \<bar>vx normal\<bar> > 0.9
               then (vy hitPoint * scale,
                     perlinNoise p (vy hitPoint * scale * 0.5) (vz hitPoint * scale * 0.5))
             else (vy hitPoint * scale,
                   perlinNoise p (vx hitPoint * scale * 0.5) (vy hitPoint * scale * 0.5)));
          stripePattern0 =
            sin (stripeCoord * 2 * pi / stripeDensity + noiseVal * noiseStrength * 10);
          stripePattern1 = (stripePattern0 + 1) * 0.5;
          stripePattern2 = \<bar>stripePattern1 - 0.5\<bar> * 2;
          stripePattern = stripePattern2 ^ 2
      in interpolate_vec lightWood darkWood stripePattern)"

subsection \<open>Nearest hit (lines 309-421)\<close>

text \<open>The local variables of \<^verbatim>\<open>trace\<close> that the intersection tests update.\<close>

record HitState =
  tMin :: real
  hitMat :: Material
  hitPoint :: Vector3
  hitNormal :: Vector3
  hasHit :: bool
  isBox :: bool

definition init_HitState :: HitState where
  "init_HitState =
     \<lparr>tMin = 100000, hitMat = default_Material, hitPoint = Vector3 0 0 0,
      hitNormal = Vector3 0 0 0, hasHit = False, isBox = False\<rparr>"

text \<open>One iteration of the loop over the spheres (lines 316-326).\<close>

definition sphere_step :: "Ray \<Rightarrow> Sphere \<Rightarrow> HitState \<Rightarrow> HitState" where
  "sphere_step ray sphere st =
     (case Sphere_intersect sphere ray of
        None \<Rightarrow> st
      | Some t \<Rightarrow>
          if t < tMin st
          then (let hp = vadd (origin ray) (vscale (direction ray) t)
                in st\<lparr>tMin := t, hitPoint := hp,
                      hitNormal := normalize_vec (vsub hp (center sphere)),
                      hitMat := mat sphere, hasHit := True, isBox := False\<rparr>)
          else st)"

text \<open>One iteration of the loop over the boxes (lines 329-340).\<close>

definition box_step :: "Ray \<Rightarrow> Box \<Rightarrow> HitState \<Rightarrow> HitState" where
  "box_step ray box st =
     (case Box_intersect box ray of
        Miss \<Rightarrow> st
      | HitNaN \<Rightarrow> st
      | Hit t normal \<Rightarrow>
          if t < tMin st
          then st\<lparr>tMin := t, hitPoint := vadd (origin ray) (vscale (direction ray) t),
                  hitNormal := normal, hitMat := bmat box, hasHit := True, isBox := True\<rparr>
          else st)"

text \<open>
  \<^verbatim>\<open>static_cast<int>(woodZ * 5) % 2\<close> (line 355): the cast truncates toward zero
  and the remainder has the sign of the dividend; the stripe is taken when it is not 0.
\<close>

definition trunc_int :: "real \<Rightarrow> int" where
  "trunc_int r = (if r \<ge> 0 then \<lfloor>r\<rfloor> else \<lceil>r\<rceil>)"

definition c_rem :: "int \<Rightarrow> int \<Rightarrow> int" where
  "c_rem a b = (if a \<ge> 0 then a mod \<bar>b\<bar> else - ((- a) mod \<bar>b\<bar>))"

text \<open>The floor \<open>y = 0\<close> (lines 343-365).\<close>

definition floor_step :: "Ray \<Rightarrow> HitState \<Rightarrow> HitState" where
  "floor_step ray st =
     (case planeIntersect ray (Vector3 0 0 0) (Vector3 0 1 0) of
        None \<Rightarrow> st
      | Some tPlane \<Rightarrow>
          if tPlane < tMin st
          then (let p = vadd (origin ray) (vscale (direction ray) tPlane)
                in if vx p \<ge> - 1.5 \<and> vx p \<le> 1.5 \<and> vz p \<ge> - 1.5 \<and> vz p \<le> 1.5
                   then (let woodX = vx p * 15;
                             woodZ = vz p * 8;
                             pattern = sin woodX * 0.5 + 0.5;
                             stripe = c_rem (trunc_int (woodZ * 5)) 2;
                             baseColor = (if stripe \<noteq> 0 then Vector3 0.55 0.35 0.15
                                          else Vector3 0.45 0.25 0.1)
                         in st\<lparr>tMin := tPlane, hitPoint := p, hitNormal := Vector3 0 1 0,
                               hitMat := (hitMat st)\<lparr>
                                 color := vscale baseColor (0.8 + pattern * 0.2),
                                 ka := 0.15, kd := 0.75, ks := 0.15, kr := 0,
                                 shininess := 20, isMetallic := False, roughness := 0\<rparr>,
                               hasHit := True, isBox := False\<rparr>)
                   else st)
          else st)"

text \<open>
  The four walls (lines 368-421) share one shape: the plane, the bound test on the hit
  point, the normal and the colour differ.  \<open>wall_update\<close> is the body of the inner
  \<^verbatim>\<open>if\<close>; it assigns neither \<^verbatim>\<open>shininess\<close>, \<^verbatim>\<open>eta\<close> nor \<^verbatim>\<open>isRefractive\<close>.
\<close>

definition wall_update :: "real \<Rightarrow> Vector3 \<Rightarrow> Vector3 \<Rightarrow> Vector3 \<Rightarrow> HitState \<Rightarrow> HitState" where
  "wall_update tPlane p normal col st =
     st\<lparr>tMin := tPlane, hitPoint := p, hitNormal := normal,
        hitMat := (hitMat st)\<lparr>color := col, ka := 0.1, kd := 0.8, ks := 0.05, kr := 0,
                              isMetallic := False, roughness := 0\<rparr>,
        hasHit := True, isBox := False\<rparr>"

definition leftWall_step :: "Ray \<Rightarrow> HitState \<Rightarrow> HitState" where
  "leftWall_step ray st =
     (case planeIntersect ray (Vector3 (- 1.5) 0 0) (Vector3 1 0 0) of
        None \<Rightarrow> st
      | Some tPlane \<Rightarrow>
          if tPlane < tMin st
          then (let p = vadd (origin ray) (vscale (direction ray) tPlane)
                in if vy p \<ge> 0 \<and> vy p \<le> 3 \<and> vz p \<ge> - 1.5 \<and> vz p \<le> 1.5
                   then wall_update tPlane p (Vector3 1 0 0) (Vector3 0.75 0.1 0.1) st
                   else st)
          else st)"

definition rightWall_step :: "Ray \<Rightarrow> HitState \<Rightarrow> HitState" where
  "rightWall_step ray st =
     (case planeIntersect ray (Vector3 1.5 0 0) (Vector3 (- 1) 0 0) of
        None \<Rightarrow> st
      | Some tPlane \<Rightarrow>
          if tPlane < tMin st
          then (let p = vadd (origin ray) (vscale (direction ray) tPlane)
                in if vy p \<ge> 0 \<and> vy p \<le> 3 \<and> vz p \<ge> - 1.5 \<and> vz p \<le> 1.5
                   then wall_update tPlane p (Vector3 (- 1) 0 0) (Vector3 0.1 0.75 0.1) st
                   else st)
          else st)"

definition backWall_step :: "Ray \<Rightarrow> HitState \<Rightarrow> HitState" where
  "backWall_step ray st =
     (case planeIntersect ray (Vector3 0 0 (- 1.5)) (Vector3 0 0 1) of
        None \<Rightarrow> st
      | Some tPlane \<Rightarrow>
          if tPlane < tMin st
          then (let p = vadd (origin ray) (vscale (direction ray) tPlane)
                in if vx p \<ge> - 1.5 \<and> vx p \<le> 1.5 \<and> vy p \<ge> 0 \<and> vy p \<le> 3
                   then wall_update tPlane p (Vector3 0 0 1) (Vector3 0.85 0.85 0.85) st
                   else st)
          else st)"

definition ceiling_step :: "Ray \<Rightarrow> HitState \<Rightarrow> HitState" where
  "ceiling_step ray st =
     (case planeIntersect ray (Vector3 0 3 0) (Vector3 0 (- 1) 0) of
        None \<Rightarrow> st
      | Some tPlane \<Rightarrow>
          if tPlane < tMin st
          then (let p = vadd (origin ray) (vscale (direction ray) tPlane)
                in if vx p \<ge> - 1.5 \<and> vx p \<le> 1.5 \<and> vz p \<ge> - 1.5 \<and> vz p \<le> 1.5
                   then wall_update tPlane p (Vector3 0 (- 1) 0) (Vector3 0.85 0.85 0.85) st
                   else st)
          else st)"

text \<open>The state after the two loops, and after the five planes in the source's order.\<close>

definition objects_hit :: "Scene \<Rightarrow> Ray \<Rightarrow> HitState" where
  "objects_hit sc ray =
     fold (box_step ray) (boxes sc) (fold (sphere_step ray) (spheres sc) init_HitState)"

definition planes_hit :: "Ray \<Rightarrow> HitState \<Rightarrow> HitState" where
  "planes_hit ray st =
     ceiling_step ray (backWall_step ray (rightWall_step ray (leftWall_step ray
       (floor_step ray st))))"

text \<open>
  What the plane tests keep of the state before them: the refractive flag and index of
  the material, and either the whole state or a nearer hit that is not a box.
\<close>

definition plane_kept :: "HitState \<Rightarrow> HitState \<Rightarrow> bool" where
  "plane_kept st st' =
     (isRefractive (hitMat st') = isRefractive (hitMat st)
      \<and> eta (hitMat st') = eta (hitMat st)
      \<and> (st' = st \<or> (tMin st' < tMin st \<and> hasHit st' \<and> \<not> isBox st')))"

text \<open>Lines 426-428: a box takes the colour of the wood texture.\<close>

definition wood_override :: "Globals \<Rightarrow> HitState \<Rightarrow> HitState" where
  "wood_override g st =
     (if isBox st
      then st\<lparr>hitMat := (hitMat st)\<lparr>color :=
                 getWoodTextureColor (ptable g) (hitPoint st) (hitNormal st)\<rparr>\<rparr>
      else st)"

definition find_hit :: "Globals \<Rightarrow> Scene \<Rightarrow> Ray \<Rightarrow> HitState" where
  "find_hit g sc ray = wood_override g (planes_hit ray (objects_hit sc ray))"

subsection \<open>Refraction (lines 433-470)\<close>

text \<open>
  Lines 434-443: the cosine of the incidence angle, the normal and the refractive index,
  after the flip for a ray that leaves the medium.  The result is the triple
  \<open>(cosI, n, eta)\<close> of the source's local variables.
\<close>

definition refract_setup :: "Ray \<Rightarrow> HitState \<Rightarrow> real \<times> Vector3 \<times> real" where
  "refract_setup ray h =
     (let cosI = - dot (direction ray) (hitNormal h);
          eta0 = eta (hitMat h);
          n = hitNormal h;
          entering = (cosI > 0)
      in if \<not> entering then (- cosI, vscale (hitNormal h) (- 1), 1 / eta0)
         else (cosI, n, eta0))"

definition sinT2_of :: "Ray \<Rightarrow> HitState \<Rightarrow> real" where
  "sinT2_of ray h =
     (case refract_setup ray h of (cosI, n, eta1) \<Rightarrow> eta1 * eta1 * (1 - cosI * cosI))"

text \<open>Lines 447-450: the refracted ray.\<close>

definition refractRay_of :: "Ray \<Rightarrow> HitState \<Rightarrow> Ray" where
  "refractRay_of ray h =
     (case refract_setup ray h of (cosI, n, eta1) \<Rightarrow>
        let sinT2 = eta1 * eta1 * (1 - cosI * cosI);
            cosT = sqrt (1 - sinT2);
            refractDir = normalize_vec
              (vadd (vscale (direction ray) eta1) (vscale n (eta1 * cosI - cosT)))
        in mk_Ray (vsub (hitPoint h) (vscale n 0.001)) refractDir)"

text \<open>Lines 454-455: Schlick's approximation, from the local \<open>eta\<close> and \<open>cosI\<close>.\<close>

definition schlick :: "real \<Rightarrow> real \<Rightarrow> real" where
  "schlick eta1 cosI =
     (let R0 = ((eta1 - 1) * (eta1 - 1)) / ((eta1 + 1) * (eta1 + 1))
      in R0 + (1 - R0) * (1 - cosI) ^ 5)"

definition fresnel_of :: "Ray \<Rightarrow> HitState \<Rightarrow> real" where
  "fresnel_of ray h = (case refract_setup ray h of (cosI, n, eta1) \<Rightarrow> schlick eta1 cosI)"

text \<open>Lines 458-459: the mirror ray of the refracting case, built from \<^verbatim>\<open>hitNormal\<close>.\<close>

definition reflectRay_of :: "Ray \<Rightarrow> HitState \<Rightarrow> Ray" where
  "reflectRay_of ray h =
     (let reflectDir = normalize_vec
            (vsub (direction ray)
                  (vscale (vscale (hitNormal h) 2) (dot (direction ray) (hitNormal h))))
      in mk_Ray (vadd (hitPoint h) (vscale (hitNormal h) 0.001)) reflectDir)"

text \<open>Lines 465-466: the mirror ray under total internal reflection, built from \<open>n\<close>.\<close>

definition tirRay_of :: "Ray \<Rightarrow> HitState \<Rightarrow> Ray" where
  "tirRay_of ray h =
     (case refract_setup ray h of (cosI, n, eta1) \<Rightarrow>
        let reflectDir = normalize_vec
              (vsub (direction ray) (vscale (vscale n 2) (dot (direction ray) n)))
        in mk_Ray (vadd (hitPoint h) (vscale n 0.001)) reflectDir)"

text \<open>Line 462: the blend of the two traced colours.\<close>

definition fresnel_blend :: "real \<Rightarrow> Vector3 \<Rightarrow> Vector3 \<Rightarrow> Vector3" where
  "fresnel_blend fresnel refractColor reflectColor =
     vadd (vscale refractColor (1 - fresnel)) (vscale reflectColor fresnel)"

subsection \<open>Local illumination (lines 473-527)\<close>

text \<open>The two occlusion loops (lines 482-497); each stops at the first occluder.\<close>

fun shadow_spheres :: "Ray \<Rightarrow> real \<Rightarrow> Sphere list \<Rightarrow> bool" where
  "shadow_spheres shadowRay lightDist [] = False"
| "shadow_spheres shadowRay lightDist (s # ss) =
     (case Sphere_intersect s shadowRay of
        Some st \<Rightarrow> if st < lightDist - 0.001 then True
                   else shadow_spheres shadowRay lightDist ss
      | None \<Rightarrow> shadow_spheres shadowRay lightDist ss)"

fun shadow_boxes :: "Ray \<Rightarrow> real \<Rightarrow> Box list \<Rightarrow> bool" where
  "shadow_boxes shadowRay lightDist [] = False"
| "shadow_boxes shadowRay lightDist (b # bs) =
     (case Box_intersect b shadowRay of
        Hit bt bn \<Rightarrow> if bt < lightDist - 0.001 then True
                     else shadow_boxes shadowRay lightDist bs
      | HitNaN \<Rightarrow> shadow_boxes shadowRay lightDist bs
      | Miss \<Rightarrow> shadow_boxes shadowRay lightDist bs)"

definition lightDir_of :: "Scene \<Rightarrow> HitState \<Rightarrow> Vector3" where
  "lightDir_of sc h = normalize_vec (vsub (lightPos sc) (hitPoint h))"

definition lightDist_of :: "Scene \<Rightarrow> HitState \<Rightarrow> real" where
  "lightDist_of sc h = length_vec (vsub (lightPos sc) (hitPoint h))"

definition shadowRay_of :: "Scene \<Rightarrow> HitState \<Rightarrow> Ray" where
  "shadowRay_of sc h =
     mk_Ray (vadd (hitPoint h) (vscale (hitNormal h) 0.001)) (lightDir_of sc h)"

definition inShadow :: "Scene \<Rightarrow> HitState \<Rightarrow> bool" where
  "inShadow sc h =
     (if shadow_spheres (shadowRay_of sc h) (lightDist_of sc h) (spheres sc) then True
      else shadow_boxes (shadowRay_of sc h) (lightDist_of sc h) (boxes sc))"

text \<open>
  \<^verbatim>\<open>std::pow\<close> on a base that is not negative (line 518; the base is a \<^verbatim>\<open>max\<close> with
  0).  A zero base with a negative exponent, infinite in C++, is not modelled.
\<close>

definition powf :: "real \<Rightarrow> real \<Rightarrow> real" where
  "powf b e = (if e = 0 then 1 else b powr e)"

definition local_illum :: "Scene \<Rightarrow> HitState \<Rightarrow> Vector3" where
  "local_illum sc h =
     (let m = hitMat h;
          lightDir = lightDir_of sc h;
          lightDist = lightDist_of sc h
      in if \<not> inShadow sc h
         then (let localColor1 = vadd (Vector3 0 0 0) (vscale (color m) (ka m));
                   diff = max 0 (dot (hitNormal h) lightDir);
                   attenuation = 1 / (1 + 0.05 * lightDist * lightDist);
                   localColor2 =
                     (if isMetallic m
                      then vadd localColor1
                             (vscale (vscale (vscale (vscale (vmul (color m) (lightColor sc))
                                (kd m)) diff) attenuation) 0.1)
                      else vadd localColor1
                             (vscale (vscale (vscale (vmul (color m) (lightColor sc))
                                (kd m)) diff) attenuation));
                   viewDir = normalize_vec (vsub (cameraPos sc) (hitPoint h));
                   reflectDir = normalize_vec
                     (vsub (vscale (hitNormal h) (2 * dot (hitNormal h) lightDir)) lightDir);
                   spec = powf (max 0 (dot viewDir reflectDir)) (shininess m)
               in vadd localColor2
                    (vscale (vscale (vscale (if isMetallic m then color m else lightColor sc)
                       (ks m)) spec) attenuation))
         else vscale (vscale (color m) (ka m)) 0.5)"

subsection \<open>Glossy reflection (lines 530-575)\<close>

text \<open>
  Lines 542-558: the direction of one sample.  A rough material draws three values from
  the generator; the state is the number of values drawn.
\<close>

definition perturb :: "Globals \<Rightarrow> HitState \<Rightarrow> Vector3 \<Rightarrow> nat \<Rightarrow> Vector3 \<times> nat" where
  "perturb g h reflectDir s =
     (if roughness (hitMat h) > 0.001
      then (let r1 = draws g s;
                r2 = draws g (s + 1);
                r3 = draws g (s + 2);
                randomVec = normalize_vec (Vector3 r1 r2 r3);
                perturbedReflectDir = normalize_vec
                  (vadd reflectDir (vscale randomVec (roughness (hitMat h))))
            in (if dot perturbedReflectDir (hitNormal h) < 0 then reflectDir
                else perturbedReflectDir, s + 3))
      else (reflectDir, s))"

definition mirrorDir_of :: "Ray \<Rightarrow> HitState \<Rightarrow> Vector3" where
  "mirrorDir_of ray h =
     normalize_vec
       (vsub (direction ray)
             (vscale (vscale (hitNormal h) 2) (dot (direction ray) (hitNormal h))))"

definition samples_of :: "HitState \<Rightarrow> nat" where
  "samples_of h = (if roughness (hitMat h) > 0.001 then 16 else 1)"

text \<open>Lines 563-574: the average of the samples, blended with the local colour.\<close>

definition kr_blend :: "HitState \<Rightarrow> Vector3 \<Rightarrow> Vector3 \<Rightarrow> Vector3" where
  "kr_blend h finalColor glossySum =
     (let m = hitMat h;
          glossyReflectColor = vscale glossySum (1 / real (samples_of h))
      in if isMetallic m
         then (let metalReflectColor = vmul glossyReflectColor (color m)
               in vadd (vscale finalColor (1 - kr m)) (vscale metalReflectColor (kr m)))
         else vadd (vscale finalColor (1 - kr m)) (vscale glossyReflectColor (kr m)))"

subsection \<open>Scene::trace (lines 306-578)\<close>

text \<open>
  \<open>trace g sc ray depth s\<close> returns the colour and the state of the generator.
  \<open>glossy_loop\<close> is the sampling loop of lines 541-562, with the counter \<open>i\<close>, the
  bound \<open>n\<close> and the running sum.
\<close>

function trace :: "Globals \<Rightarrow> Scene \<Rightarrow> Ray \<Rightarrow> int \<Rightarrow> nat \<Rightarrow> Vector3 \<times> nat"
  and glossy_loop ::
    "Globals \<Rightarrow> Scene \<Rightarrow> HitState \<Rightarrow> Vector3 \<Rightarrow> int \<Rightarrow> nat \<Rightarrow> nat \<Rightarrow> Vector3 \<Rightarrow> nat
      \<Rightarrow> Vector3 \<times> nat"
where
  "trace g sc ray depth s =
     (if depth > 6 then (bgColor sc, s)
      else
        let h0 = planes_hit ray (objects_hit sc ray)
        in if \<not> hasHit h0 then (bgColor sc, s)
           else
             let h = wood_override g h0
             in if isRefractive (hitMat h) \<and> depth < 6
                then (if sinT2_of ray h < 1
                      then (case trace g sc (refractRay_of ray h) (depth + 1) s of
                              (refractColor, s1) \<Rightarrow>
                                (case trace g sc (reflectRay_of ray h) (depth + 1) s1 of
                                   (reflectColor, s2) \<Rightarrow>
                                     (fresnel_blend (fresnel_of ray h) refractColor
                                        reflectColor, s2)))
                      else trace g sc (tirRay_of ray h) (depth + 1) s)
                else
                  let finalColor = local_illum sc h
                  in if kr (hitMat h) > 0 \<and> depth < 6
                     then (case glossy_loop g sc h (mirrorDir_of ray h) depth 0
                                  (samples_of h) (Vector3 0 0 0) s of
                             (glossySum, s1) \<Rightarrow> (kr_blend h finalColor glossySum, s1))
                     else (finalColor, s))"
| "glossy_loop g sc h reflectDir depth i n acc s =
     (if i < n
      then (case perturb g h reflectDir s of
              (perturbedReflectDir, s1) \<Rightarrow>
                (case trace g sc
                        (mk_Ray (vadd (hitPoint h) (vscale (hitNormal h) 0.001))
                                perturbedReflectDir)
                        (depth + 1) s1 of
                   (c, s2) \<Rightarrow> glossy_loop g sc h reflectDir depth (i + 1) n (vadd acc c) s2))
      else (acc, s))"
  by pat_completeness auto

termination
  by (relation "inv_image (less_than <*lex*> less_than)
        (\<lambda>x. case x of
           Inl (g, sc, ray, depth, s) \<Rightarrow> (2 * nat (7 - depth), 0)
         | Inr (g, sc, h, reflectDir, depth, i, n, acc, s) \<Rightarrow>
             (2 * nat (6 - depth) + 1, n - i))")
     auto

subsection \<open>Gamma correction in Scene::render (lines 598-600)\<close>

definition gamma_correct :: "real \<Rightarrow> real" where
  "gamma_correct c = (max 0 (min c 1)) powr 0.454"

subsection \<open>One pixel of Scene::render (lines 583-606)\<close>

definition WIDTH :: real where "WIDTH = 800"

definition HEIGHT :: real where "HEIGHT = 600"

definition primary_ray :: "Scene \<Rightarrow> nat \<Rightarrow> nat \<Rightarrow> Ray" where
  "primary_ray sc x y =
     (let forward = normalize_vec (vsub (lookAt sc) (cameraPos sc));
          right = normalize_vec (cross forward (Vector3 0 1 0));
          up = normalize_vec (cross right forward);
          u = (2 * real x / WIDTH - 1) * tan (fov sc / 2) * (WIDTH / HEIGHT);
          v = (1 - 2 * real y / HEIGHT) * tan (fov sc / 2);
          dir = normalize_vec (vadd (vadd forward (vscale right u)) (vscale up v))
      in mk_Ray (cameraPos sc) dir)"

text \<open>\<^verbatim>\<open>static_cast<unsigned char>(std::min(255.0f, c * 255))\<close> on a channel that is not negative.\<close>

definition to_byte :: "real \<Rightarrow> nat" where
  "to_byte c = nat \<lfloor>min 255 (c * 255)\<rfloor>"

definition render_pixel :: "Globals \<Rightarrow> Scene \<Rightarrow> nat \<Rightarrow> nat \<Rightarrow> nat \<Rightarrow> (nat \<times> nat \<times> nat) \<times> nat" where
  "render_pixel g sc x y s =
     (case trace g sc (primary_ray sc x y) 0 s of
        (col, s1) \<Rightarrow>
          ((to_byte (gamma_correct (vx col)), to_byte (gamma_correct (vy col)),
            to_byte (gamma_correct (vz col))), s1))"

subsection \<open>The calls of trace\<close>

text \<open>
  The definition of \<open>trace\<close> and \<open>glossy_loop\<close> comes with its call relation
  \<open>trace_glossy_loop_rel callee caller\<close>, over the arguments of \<open>trace\<close> (\<open>Inl\<close>) and
  of the sampling loop (\<open>Inr\<close>): one rule for each recursive call of the definition, under
  the conditions that guard the call.  \<open>trace_call c' c\<close> says that the call \<open>trace c\<close>
  makes the call \<open>trace c'\<close>, either directly (refraction, reflection under total
  internal reflection) or from an iteration of the sampling loop that it entered.
\<close>

type_synonym trace_args = "Globals \<times> Scene \<times> Ray \<times> int \<times> nat"

type_synonym loop_args =
  "Globals \<times> Scene \<times> HitState \<times> Vector3 \<times> int \<times> nat \<times> nat \<times> Vector3 \<times> nat"

definition loop_next :: "loop_args \<Rightarrow> loop_args \<Rightarrow> bool" where
  "loop_next l' l = trace_glossy_loop_rel (Inr l') (Inr l)"

definition trace_call :: "trace_args \<Rightarrow> trace_args \<Rightarrow> bool" where
  "trace_call c' c =
     (trace_glossy_loop_rel (Inl c') (Inl c)
      \<or> (\<exists>l l0. trace_glossy_loop_rel (Inl c') (Inr l) \<and> loop_next\<^sup>*\<^sup>* l l0
                 \<and> trace_glossy_loop_rel (Inr l0) (Inl c)))"

fun depth_of :: "trace_args \<Rightarrow> int" where
  "depth_of (g, sc, ray, depth, s) = depth"

fun loop_depth :: "loop_args \<Rightarrow> int" where
  "loop_depth (g, sc, h, reflectDir, depth, i, n, acc, s) = depth"

fun call_measure :: "trace_args + loop_args \<Rightarrow> nat \<times> nat" where
  "call_measure (Inl (g, sc, ray, depth, s)) = (2 * nat (7 - depth), 0)"
| "call_measure (Inr (g, sc, h, reflectDir, depth, i, n, acc, s)) =
     (2 * nat (6 - depth) + 1, n - i)"

subsection \<open>The quadratic of the sphere test, in the words of the specification\<close>

text \<open>
  The coefficients \<open>a = d.d\<close>, \<open>b = 2 (o - c).d\<close> and \<open>c = (o - c).(o - c) - r\<^sup>2\<close>, the
  discriminant and the two roots, to compare \<open>Sphere_intersect\<close> with.
\<close>

definition quad_a :: "Sphere \<Rightarrow> Ray \<Rightarrow> real" where
  "quad_a sp ray = dot (direction ray) (direction ray)"

definition quad_b :: "Sphere \<Rightarrow> Ray \<Rightarrow> real" where
  "quad_b sp ray = 2 * dot (vsub (origin ray) (center sp)) (direction ray)"

definition quad_c :: "Sphere \<Rightarrow> Ray \<Rightarrow> real" where
  "quad_c sp ray =
     dot (vsub (origin ray) (center sp)) (vsub (origin ray) (center sp))
       - radius sp * radius sp"

definition quad_disc :: "Sphere \<Rightarrow> Ray \<Rightarrow> real" where
  "quad_disc sp ray = quad_b sp ray * quad_b sp ray - 4 * quad_a sp ray * quad_c sp ray"

definition root_small :: "Sphere \<Rightarrow> Ray \<Rightarrow> real" where
  "root_small sp ray = (- quad_b sp ray - sqrt (quad_disc sp ray)) / (2 * quad_a sp ray)"

definition root_large :: "Sphere \<Rightarrow> Ray \<Rightarrow> real" where
  "root_large sp ray = (- quad_b sp ray + sqrt (quad_disc sp ray)) / (2 * quad_a sp ray)"

subsection \<open>Concrete scenes and rays\<close>

text \<open>
  The globals of the examples: the table of the identity shuffle, and a generator that
  always returns 0.
\<close>

definition id_globals :: Globals where
  "id_globals = \<lparr>ptable = initPerlinNoise (map int [0..<256]), draws = (\<lambda>k. 0)\<rparr>"

text \<open>A glass sphere under the light, seen from above.\<close>

definition glass_scene :: Scene where
  "glass_scene = default_Scene
     \<lparr>spheres := [\<lparr>center = Vector3 0 1 0, radius = 1 / 2, mat = glass\<rparr>]\<rparr>"

definition down_ray :: Ray where
  "down_ray = mk_Ray (Vector3 0 (5 / 2) 0) (Vector3 0 (- 1) 0)"

text \<open>A ray that starts inside a glass sphere and leaves it obliquely.\<close>

definition exit_sphere :: Sphere where
  "exit_sphere = \<lparr>center = Vector3 0 (3 / 2) 0, radius = 1, mat = glass\<rparr>"

definition exit_scene :: Scene where
  "exit_scene = default_Scene\<lparr>spheres := [exit_sphere]\<rparr>"

definition exit_ray :: Ray where
  "exit_ray = mk_Ray (Vector3 (- 3 / 5) (3 / 2) (1 / 5)) (Vector3 (3 / 5) 0 (4 / 5))"

text \<open>
  A glass sphere of shininess \<open>sh\<close> behind the left wall, and a ray from the room
  toward it: the ray meets the wall first.
\<close>

definition wall_scene :: "real \<Rightarrow> Scene" where
  "wall_scene sh = default_Scene
     \<lparr>spheres := [\<lparr>center = Vector3 (- 3) (9 / 10) 0, radius = 1 / 2,
                   mat = glass\<lparr>shininess := sh\<rparr>\<rparr>]\<rparr>"

definition wall_ray :: Ray where
  "wall_ray = mk_Ray (Vector3 0 (9 / 10) 0) (Vector3 (- 1) 0 0)"

text \<open>An opaque sphere between the light and the floor point \<open>(0, 0, 0)\<close>.\<close>

definition shadow_scene :: Scene where
  "shadow_scene = default_Scene
     \<lparr>spheres := [\<lparr>center = Vector3 0 1 0, radius = 1 / 2, mat = default_Material\<rparr>]\<rparr>"

definition shadow_ray :: Ray where
  "shadow_ray = mk_Ray (Vector3 0 (3 / 5) (4 / 5)) (Vector3 0 (- 3 / 5) (- 4 / 5))"

text \<open>The material that the floor test leaves at the point \<open>(0, 0, 0)\<close>.\<close>

definition floor_mat :: Material where
  "floor_mat = default_Material\<lparr>color := Vector3 (81 / 200) (9 / 40) (9 / 100), ka := 3 / 20,
     kd := 3 / 4, ks := 3 / 20, kr := 0, shininess := 20, isMetallic := False, roughness := 0\<rparr>"

text \<open>
  Two mirror spheres that face each other along the \<open>z\<close> axis, and the two rays that
  bounce between them: each is the mirror ray of the other.
\<close>

definition mirror_scene :: Scene where
  "mirror_scene = default_Scene
     \<lparr>spheres := [\<lparr>center = Vector3 0 (3 / 2) (- 2), radius = 1, mat = redMirror\<rparr>,
                  \<lparr>center = Vector3 0 (3 / 2) 2, radius = 1, mat = redMirror\<rparr>]\<rparr>"

definition fwd_ray :: Ray where
  "fwd_ray = mk_Ray (Vector3 0 (3 / 2) (- 999 / 1000)) (Vector3 0 0 1)"

definition bwd_ray :: Ray where
  "bwd_ray = mk_Ray (Vector3 0 (3 / 2) (999 / 1000)) (Vector3 0 0 (- 1))"

text \<open>The sphere and the box of the two intersection examples.\<close>

definition unit_sphere :: Sphere where
  "unit_sphere = \<lparr>center = Vector3 0 0 0, radius = 1, mat = default_Material\<rparr>"

definition unit_box :: Box where
  "unit_box = \<lparr>bmin = Vector3 (- 1) 0 (- 1), bmax = Vector3 1 1 1, bmat = default_Material\<rparr>"

definition unit_scene :: Scene where
  "unit_scene = default_Scene\<lparr>spheres := [unit_sphere]\<rparr>"

definition front_ray :: Ray where
  "front_ray = mk_Ray (Vector3 0 0 5) (Vector3 0 0 (- 1))"

definition top_ray :: Ray where
  "top_ray = mk_Ray (Vector3 0 5 0) (Vector3 0 (- 1) 0)"

section \<open>Vector3::normalize and Ray::Ray on the zero vector\<close>

lemma normalize_vec_zero: "normalize_vec (Vector3 0 0 0) = Vector3 0 0 0"
  by (simp add: normalize_vec_def)

text \<open>
  Claim C9.  \<^verbatim>\<open>normalize()\<close> of the zero vector is the zero vector, and a ray
  built with the zero direction keeps it: its direction has length 0, not 1.
\<close>

theorem C9_normalize_zero_ray:
  "normalize_vec (Vector3 0 0 0) = Vector3 0 0 0
   \<and> direction (mk_Ray o_pt (Vector3 0 0 0)) = Vector3 0 0 0
   \<and> length_vec (direction (mk_Ray o_pt (Vector3 0 0 0))) = 0
   \<and> length_vec (direction (mk_Ray o_pt (Vector3 0 0 0))) \<noteq> 1"
  by (simp add: mk_Ray_def normalize_vec_def length_vec_def)


section \<open>Shared lemmas\<close>

lemmas vec_defs = vadd_def vsub_def vscale_def vmul_def dot_def length_vec_def
  normalize_vec_def mk_Ray_def

lemmas plane_defs = planes_hit_def floor_step_def leftWall_step_def rightWall_step_def
  backWall_step_def ceiling_step_def planeIntersect_def wall_update_def

lemma sqrt_sq: "0 \<le> x \<Longrightarrow> sqrt (x * x) = x"
  by simp

section \<open>Sphere::intersect and Box::intersect\<close>

lemma quadratic_roots:
  fixes a b c :: real
  assumes "0 < a" "0 \<le> b * b - 4 * a * c"
  shows "a * ((- b - sqrt (b * b - 4 * a * c)) / (2 * a)) * ((- b - sqrt (b * b - 4 * a * c)) / (2 * a))
           + b * ((- b - sqrt (b * b - 4 * a * c)) / (2 * a)) + c = 0"
    and "a * ((- b + sqrt (b * b - 4 * a * c)) / (2 * a)) * ((- b + sqrt (b * b - 4 * a * c)) / (2 * a))
           + b * ((- b + sqrt (b * b - 4 * a * c)) / (2 * a)) + c = 0"
    and "(- b - sqrt (b * b - 4 * a * c)) / (2 * a) \<le> (- b + sqrt (b * b - 4 * a * c)) / (2 * a)"
proof -
  define r where "r = sqrt (b * b - 4 * a * c)"
  have rr: "r * r = b * b - 4 * a * c" and r0: "0 \<le> r"
    using assms(2) by (simp_all add: r_def)
  have a0: "a \<noteq> 0" using assms(1) by simp
  have "a * ((- b - r) / (2 * a)) * ((- b - r) / (2 * a)) + b * ((- b - r) / (2 * a)) + c
        = ((- b - r) * (- b - r) + 2 * b * (- b - r) + 4 * a * c) / (4 * a)"
    using a0 by (simp add: field_simps)
  also have "(- b - r) * (- b - r) + 2 * b * (- b - r) + 4 * a * c = r * r - (b * b - 4 * a * c)"
    by (simp add: algebra_simps)
  finally show "a * ((- b - sqrt (b * b - 4 * a * c)) / (2 * a)) * ((- b - sqrt (b * b - 4 * a * c)) / (2 * a))
           + b * ((- b - sqrt (b * b - 4 * a * c)) / (2 * a)) + c = 0"
    using rr by (simp add: r_def)
  have "a * ((- b + r) / (2 * a)) * ((- b + r) / (2 * a)) + b * ((- b + r) / (2 * a)) + c
        = ((- b + r) * (- b + r) + 2 * b * (- b + r) + 4 * a * c) / (4 * a)"
    using a0 by (simp add: field_simps)
  also have "(- b + r) * (- b + r) + 2 * b * (- b + r) + 4 * a * c = r * r - (b * b - 4 * a * c)"
    by (simp add: algebra_simps)
  finally show "a * ((- b + sqrt (b * b - 4 * a * c)) / (2 * a)) * ((- b + sqrt (b * b - 4 * a * c)) / (2 * a))
           + b * ((- b + sqrt (b * b - 4 * a * c)) / (2 * a)) + c = 0"
    using rr by (simp add: r_def)
  show "(- b - sqrt (b * b - 4 * a * c)) / (2 * a) \<le> (- b + sqrt (b * b - 4 * a * c)) / (2 * a)"
    using assms(1) r0 by (simp add: divide_le_cancel r_def)
qed


lemma Box_hit_normal: "Box_intersect bx ray = Hit t n \<Longrightarrow> n = box_normal bx ray t"
  unfolding Box_intersect_def Let_def
  by (simp split: if_split_asm xfloat.split_asm)

lemma box_normal_fallback:
  assumes "\<not> (\<bar>vx (vadd (origin ray) (vscale (direction ray) t)) - vx (bmin bx)\<bar> < 0.001 \<and> vx (direction ray) < 0)"
    "\<not> (\<bar>vx (vadd (origin ray) (vscale (direction ray) t)) - vx (bmax bx)\<bar> < 0.001 \<and> vx (direction ray) > 0)"
    "\<not> (\<bar>vy (vadd (origin ray) (vscale (direction ray) t)) - vy (bmin bx)\<bar> < 0.001 \<and> vy (direction ray) < 0)"
    "\<not> (\<bar>vy (vadd (origin ray) (vscale (direction ray) t)) - vy (bmax bx)\<bar> < 0.001 \<and> vy (direction ray) > 0)"
    "\<not> (\<bar>vz (vadd (origin ray) (vscale (direction ray) t)) - vz (bmin bx)\<bar> < 0.001 \<and> vz (direction ray) < 0)"
    "\<not> (\<bar>vz (vadd (origin ray) (vscale (direction ray) t)) - vz (bmax bx)\<bar> < 0.001 \<and> vz (direction ray) > 0)"
  shows "box_normal bx ray t =
     normalize_vec (vsub (vadd (origin ray) (vscale (direction ray) t))
                         (vscale (vadd (bmin bx) (bmax bx)) 0.5))"
  using assms unfolding box_normal_def Let_def
  by (auto simp add: length_vec_def)

lemma unit_box_hit:
  "Box_intersect unit_box top_ray = Hit 4 (Vector3 0 1 0)"
  by (simp add: top_ray_def Box_intersect_def box_normal_def unit_box_def recip_def xlt_def vec_defs Let_def
      real_sqrt_divide)


lemma Sphere_intersect_roots:
  "Sphere_intersect sp ray =
     (if quad_disc sp ray < 0 then None
      else if root_small sp ray > 0.001 then Some (root_small sp ray)
      else if root_large sp ray > 0.001 then Some (root_large sp ray)
      else None)"
  by (simp add: Sphere_intersect_def Let_def quad_disc_def quad_a_def quad_b_def quad_c_def
      root_small_def root_large_def)

lemma front_ray_eq: "front_ray = \<lparr>origin = Vector3 0 0 5, direction = Vector3 0 0 (- 1)\<rparr>"
  by (simp add: front_ray_def vec_defs)

lemma top_ray_eq: "top_ray = \<lparr>origin = Vector3 0 5 0, direction = Vector3 0 (- 1) 0\<rparr>"
  by (simp add: top_ray_def vec_defs)

lemma unit_sphere_hit: "Sphere_intersect unit_sphere front_ray = Some 4"
  by (simp add: Sphere_intersect_def unit_sphere_def front_ray_eq vec_defs Let_def)

lemma unit_scene_find:
  "find_hit g unit_scene front_ray =
     \<lparr>tMin = 4, hitMat = default_Material, hitPoint = Vector3 0 0 1,
      hitNormal = Vector3 0 0 1, hasHit = True, isBox = False\<rparr>"
proof -
  have o: "objects_hit unit_scene front_ray =
     \<lparr>tMin = 4, hitMat = default_Material, hitPoint = Vector3 0 0 1,
      hitNormal = Vector3 0 0 1, hasHit = True, isBox = False\<rparr>"
    by (simp add: objects_hit_def unit_scene_def default_Scene_def sphere_step_def
        unit_sphere_hit init_HitState_def Let_def)
       (simp add: unit_sphere_def front_ray_eq vec_defs)
  show ?thesis
    unfolding find_hit_def o
    by (simp add: wood_override_def plane_defs front_ray_eq vec_defs Let_def)
qed

text \<open>
  Claim C5.  \<^verbatim>\<open>Sphere::intersect\<close> misses when the discriminant of
  \<open>a t\<^sup>2 + b t + c = 0\<close> is negative; otherwise it returns the smaller root when that is
  above 0.001, else the larger root when that is above 0.001, else it misses; the two
  values are roots of the quadratic and whatever is returned is above 0.001.  The ray
  from \<open>(0, 0, 5)\<close> toward \<open>(0, 0, -1)\<close> hits the unit sphere at the origin at \<open>t = 4\<close>,
  and the nearest hit that \<^verbatim>\<open>trace\<close> finds there has the normal \<open>(0, 0, 1)\<close>.
\<close>

theorem C5_Sphere_intersect:
  "(quad_disc sp ray < 0 \<longrightarrow> Sphere_intersect sp ray = None)
   \<and> (0 \<le> quad_disc sp ray \<and> 0 < quad_a sp ray \<longrightarrow>
        quad_a sp ray * root_small sp ray * root_small sp ray
          + quad_b sp ray * root_small sp ray + quad_c sp ray = 0
        \<and> quad_a sp ray * root_large sp ray * root_large sp ray
          + quad_b sp ray * root_large sp ray + quad_c sp ray = 0
        \<and> root_small sp ray \<le> root_large sp ray)
   \<and> (0 \<le> quad_disc sp ray \<and> 0.001 < root_small sp ray \<longrightarrow>
        Sphere_intersect sp ray = Some (root_small sp ray))
   \<and> (0 \<le> quad_disc sp ray \<and> root_small sp ray \<le> 0.001 \<and> 0.001 < root_large sp ray \<longrightarrow>
        Sphere_intersect sp ray = Some (root_large sp ray))
   \<and> (0 \<le> quad_disc sp ray \<and> root_small sp ray \<le> 0.001 \<and> root_large sp ray \<le> 0.001 \<longrightarrow>
        Sphere_intersect sp ray = None)
   \<and> (Sphere_intersect sp ray = Some t \<longrightarrow>
        0.001 < t \<and> (t = root_small sp ray \<or> t = root_large sp ray))
   \<and> Sphere_intersect unit_sphere front_ray = Some 4
   \<and> tMin (find_hit g unit_scene front_ray) = 4
   \<and> hitPoint (find_hit g unit_scene front_ray) = Vector3 0 0 1
   \<and> hitNormal (find_hit g unit_scene front_ray) = Vector3 0 0 1"
proof -
  have roots: "0 \<le> quad_disc sp ray \<and> 0 < quad_a sp ray \<longrightarrow>
        quad_a sp ray * root_small sp ray * root_small sp ray
          + quad_b sp ray * root_small sp ray + quad_c sp ray = 0
        \<and> quad_a sp ray * root_large sp ray * root_large sp ray
          + quad_b sp ray * root_large sp ray + quad_c sp ray = 0
        \<and> root_small sp ray \<le> root_large sp ray"
    using quadratic_roots[of "quad_a sp ray" "quad_b sp ray" "quad_c sp ray"]
    by (simp add: root_small_def root_large_def quad_disc_def)
  have cases: "(quad_disc sp ray < 0 \<longrightarrow> Sphere_intersect sp ray = None)
     \<and> (0 \<le> quad_disc sp ray \<and> 0.001 < root_small sp ray \<longrightarrow>
        Sphere_intersect sp ray = Some (root_small sp ray))
     \<and> (0 \<le> quad_disc sp ray \<and> root_small sp ray \<le> 0.001 \<and> 0.001 < root_large sp ray \<longrightarrow>
        Sphere_intersect sp ray = Some (root_large sp ray))
     \<and> (0 \<le> quad_disc sp ray \<and> root_small sp ray \<le> 0.001 \<and> root_large sp ray \<le> 0.001 \<longrightarrow>
        Sphere_intersect sp ray = None)
     \<and> (Sphere_intersect sp ray = Some t \<longrightarrow>
        0.001 < t \<and> (t = root_small sp ray \<or> t = root_large sp ray))"
    by (auto simp add: Sphere_intersect_roots split: if_splits)
  show ?thesis
    using roots cases by (simp add: unit_sphere_hit unit_scene_find)
qed

text \<open>
  Four rays against the unit sphere: a hit from outside (smaller root 4), a miss beside
  it (negative discriminant), a ray from the centre (smaller root -1, larger root 1), a
  ray that points away (both roots negative).
\<close>

theorem C5_Sphere_intersect_witness:
  "0 \<le> quad_disc unit_sphere front_ray \<and> 0 < quad_a unit_sphere front_ray
   \<and> 0.001 < root_small unit_sphere front_ray
   \<and> root_small unit_sphere front_ray \<le> root_large unit_sphere front_ray
   \<and> Sphere_intersect unit_sphere front_ray = Some (root_small unit_sphere front_ray)
   \<and> root_small unit_sphere front_ray = 4
   \<and> quad_disc unit_sphere (mk_Ray (Vector3 0 5 5) (Vector3 0 0 (- 1))) < 0
   \<and> Sphere_intersect unit_sphere (mk_Ray (Vector3 0 5 5) (Vector3 0 0 (- 1))) = None
   \<and> root_small unit_sphere (mk_Ray (Vector3 0 0 0) (Vector3 0 0 (- 1))) \<le> 0.001
   \<and> Sphere_intersect unit_sphere (mk_Ray (Vector3 0 0 0) (Vector3 0 0 (- 1))) = Some 1
   \<and> root_large unit_sphere (mk_Ray (Vector3 0 0 (- 5)) (Vector3 0 0 (- 1))) \<le> 0.001
   \<and> Sphere_intersect unit_sphere (mk_Ray (Vector3 0 0 (- 5)) (Vector3 0 0 (- 1))) = None"
proof -
  have q1: "quad_a unit_sphere front_ray = 1" "quad_disc unit_sphere front_ray = 4"
    by (simp_all add: quad_disc_def quad_a_def quad_b_def quad_c_def unit_sphere_def
        front_ray_eq vec_defs)
  have r1: "root_small unit_sphere front_ray = 4" "root_large unit_sphere front_ray = 6"
    by (simp_all add: root_small_def root_large_def q1)
       (simp_all add: quad_b_def unit_sphere_def front_ray_eq vec_defs)
  have q2: "quad_disc unit_sphere (mk_Ray (Vector3 0 5 5) (Vector3 0 0 (- 1))) < 0"
    by (simp add: quad_disc_def quad_a_def quad_b_def quad_c_def unit_sphere_def vec_defs)
  have q3: "quad_disc unit_sphere (mk_Ray (Vector3 0 0 0) (Vector3 0 0 (- 1))) = 4"
    "quad_a unit_sphere (mk_Ray (Vector3 0 0 0) (Vector3 0 0 (- 1))) = 1"
    "quad_b unit_sphere (mk_Ray (Vector3 0 0 0) (Vector3 0 0 (- 1))) = 0"
    by (simp_all add: quad_disc_def quad_a_def quad_b_def quad_c_def unit_sphere_def vec_defs)
  have r3: "root_small unit_sphere (mk_Ray (Vector3 0 0 0) (Vector3 0 0 (- 1))) = - 1"
    "root_large unit_sphere (mk_Ray (Vector3 0 0 0) (Vector3 0 0 (- 1))) = 1"
    by (simp_all add: root_small_def root_large_def q3)
  have q4: "quad_disc unit_sphere (mk_Ray (Vector3 0 0 (- 5)) (Vector3 0 0 (- 1))) = 4"
    "quad_a unit_sphere (mk_Ray (Vector3 0 0 (- 5)) (Vector3 0 0 (- 1))) = 1"
    "quad_b unit_sphere (mk_Ray (Vector3 0 0 (- 5)) (Vector3 0 0 (- 1))) = 10"
    by (simp_all add: quad_disc_def quad_a_def quad_b_def quad_c_def unit_sphere_def vec_defs)
  have r4: "root_small unit_sphere (mk_Ray (Vector3 0 0 (- 5)) (Vector3 0 0 (- 1))) = - 6"
    "root_large unit_sphere (mk_Ray (Vector3 0 0 (- 5)) (Vector3 0 0 (- 1))) = - 4"
    by (simp_all add: root_small_def root_large_def q4)
  show ?thesis
    using C5_Sphere_intersect [of unit_sphere front_ray 4 id_globals]
      C5_Sphere_intersect [of unit_sphere "mk_Ray (Vector3 0 5 5) (Vector3 0 0 (- 1))" 0 id_globals]
      C5_Sphere_intersect [of unit_sphere "mk_Ray (Vector3 0 0 0) (Vector3 0 0 (- 1))" 1 id_globals]
      C5_Sphere_intersect [of unit_sphere "mk_Ray (Vector3 0 0 (- 5)) (Vector3 0 0 (- 1))" 0 id_globals]
    by (simp add: q1 r1 q2 q3 r3 q4 r4)
qed

text \<open>
  Claim C3.  The ray from \<open>(0, 5, 0)\<close> toward \<open>(0, -1, 0)\<close> hits the box
  \<open>(-1, 0, -1)-(1, 1, 1)\<close> at \<open>t = 4\<close> with the normal \<open>(0, 1, 0)\<close>; and whenever
  \<^verbatim>\<open>Box::intersect\<close> reports a hit at which none of the six face tests (within 0.001 of
  the face, with the sign test on the direction) holds, the normal is the normalized
  vector from the centre of the box to the hit point.
\<close>

theorem C3_Box_intersect:
  "Box_intersect unit_box top_ray = Hit 4 (Vector3 0 1 0)
   \<and> (Box_intersect bx ray = Hit t n
       \<and> \<not> (\<bar>vx (vadd (origin ray) (vscale (direction ray) t)) - vx (bmin bx)\<bar> < 0.001
              \<and> vx (direction ray) < 0)
       \<and> \<not> (\<bar>vx (vadd (origin ray) (vscale (direction ray) t)) - vx (bmax bx)\<bar> < 0.001
              \<and> vx (direction ray) > 0)
       \<and> \<not> (\<bar>vy (vadd (origin ray) (vscale (direction ray) t)) - vy (bmin bx)\<bar> < 0.001
              \<and> vy (direction ray) < 0)
       \<and> \<not> (\<bar>vy (vadd (origin ray) (vscale (direction ray) t)) - vy (bmax bx)\<bar> < 0.001
              \<and> vy (direction ray) > 0)
       \<and> \<not> (\<bar>vz (vadd (origin ray) (vscale (direction ray) t)) - vz (bmin bx)\<bar> < 0.001
              \<and> vz (direction ray) < 0)
       \<and> \<not> (\<bar>vz (vadd (origin ray) (vscale (direction ray) t)) - vz (bmax bx)\<bar> < 0.001
              \<and> vz (direction ray) > 0)
       \<longrightarrow> n = normalize_vec (vsub (vadd (origin ray) (vscale (direction ray) t))
                                   (vscale (vadd (bmin bx) (bmax bx)) 0.5)))"
  using unit_box_hit Box_hit_normal [of bx ray t n] box_normal_fallback [of ray t bx]
  by blast

text \<open>
  The example is such a hit: the hit point \<open>(0, 1, 0)\<close> lies on the top face, but the
  sign test of that face asks for a direction with a positive \<open>y\<close>, so no face test
  holds and the normal \<open>(0, 1, 0)\<close> is the one from the centre \<open>(0, 1/2, 0)\<close>.
\<close>

theorem C3_Box_intersect_witness:
  "Box_intersect unit_box top_ray = Hit 4 (Vector3 0 1 0)
   \<and> vadd (origin top_ray) (vscale (direction top_ray) 4) = Vector3 0 1 0
   \<and> \<bar>vy (Vector3 0 1 0) - vy (bmax unit_box)\<bar> < 0.001
   \<and> \<not> vy (direction top_ray) > 0
   \<and> Vector3 0 1 0 = normalize_vec (vsub (vadd (origin top_ray) (vscale (direction top_ray) 4))
                                       (vscale (vadd (bmin unit_box) (bmax unit_box)) 0.5))"
proof -
  have hp: "vadd (origin top_ray) (vscale (direction top_ray) 4) = Vector3 0 1 0"
    by (simp add: top_ray_eq vec_defs)
  have f: "\<bar>vy (Vector3 0 1 0) - vy (bmax unit_box)\<bar> < 0.001" "\<not> vy (direction top_ray) > 0"
    by (simp_all add: unit_box_def top_ray_eq)
  have nf: "\<not> (\<bar>vx (Vector3 0 1 0) - vx (bmin unit_box)\<bar> < 0.001 \<and> vx (direction top_ray) < 0)"
      "\<not> (\<bar>vx (Vector3 0 1 0) - vx (bmax unit_box)\<bar> < 0.001 \<and> vx (direction top_ray) > 0)"
      "\<not> (\<bar>vy (Vector3 0 1 0) - vy (bmin unit_box)\<bar> < 0.001 \<and> vy (direction top_ray) < 0)"
      "\<not> (\<bar>vy (Vector3 0 1 0) - vy (bmax unit_box)\<bar> < 0.001 \<and> vy (direction top_ray) > 0)"
      "\<not> (\<bar>vz (Vector3 0 1 0) - vz (bmin unit_box)\<bar> < 0.001 \<and> vz (direction top_ray) < 0)"
      "\<not> (\<bar>vz (Vector3 0 1 0) - vz (bmax unit_box)\<bar> < 0.001 \<and> vz (direction top_ray) > 0)"
    by (simp_all add: unit_box_def top_ray_eq)
  from C3_Box_intersect [of unit_box top_ray 4 "Vector3 0 1 0"] nf
  have "Vector3 0 1 0 = normalize_vec (vsub (vadd (origin top_ray) (vscale (direction top_ray) 4))
                                       (vscale (vadd (bmin unit_box) (bmax unit_box)) 0.5))"
    unfolding hp by blast
  with C3_Box_intersect [of unit_box top_ray 4 "Vector3 0 1 0"] hp f show ?thesis by blast
qed


section \<open>The Fresnel weights\<close>

lemma schlick_bounds:
  assumes "0 < cosI" "cosI \<le> 1" "1 < eta1"
  shows "0 \<le> schlick eta1 cosI" and "schlick eta1 cosI \<le> 1"
proof -
  define R0 where "R0 = ((eta1 - 1) * (eta1 - 1)) / ((eta1 + 1) * (eta1 + 1))"
  have d: "0 < (eta1 + 1) * (eta1 + 1)" using assms by simp
  have le: "(eta1 - 1) * (eta1 - 1) \<le> (eta1 + 1) * (eta1 + 1)"
    using assms by (simp add: algebra_simps)
  have R0: "0 \<le> R0" "R0 \<le> 1"
    unfolding R0_def using d le by (simp_all add: divide_le_eq)
  have p: "0 \<le> (1 - cosI) ^ 5" "(1 - cosI) ^ 5 \<le> 1"
    using assms by (simp_all add: power_le_one)
  have eq: "schlick eta1 cosI = R0 + (1 - R0) * (1 - cosI) ^ 5"
    by (simp add: schlick_def R0_def Let_def)
  have "0 \<le> (1 - R0) * (1 - cosI) ^ 5" using R0 p by simp
  then show "0 \<le> schlick eta1 cosI" using R0 eq by simp
  have "(1 - R0) * (1 - cosI) ^ 5 \<le> (1 - R0) * 1"
    using R0 p by (intro mult_left_mono) simp_all
  then show "schlick eta1 cosI \<le> 1" using eq by simp
qed

lemma schlick_formula:
  "eta1 \<noteq> - 1 \<Longrightarrow>
   schlick eta1 cosI =
     ((eta1 - 1) / (eta1 + 1)) ^ 2 + (1 - ((eta1 - 1) / (eta1 + 1)) ^ 2) * (1 - cosI) ^ 5"
  by (simp add: schlick_def Let_def power2_eq_square)

lemma fresnel_blend_same: "fresnel_blend f c c = c"
  by (cases c) (simp add: fresnel_blend_def vadd_def vscale_def algebra_simps)

lemma fresnel_blend_weights:
  "fresnel_blend f refractColor reflectColor =
     Vector3 (vx refractColor * (1 - f) + vx reflectColor * f)
             (vy refractColor * (1 - f) + vy reflectColor * f)
             (vz refractColor * (1 - f) + vz reflectColor * f)"
  by (simp add: fresnel_blend_def vadd_def vscale_def)

text \<open>
  Claim C7.  For \<open>cosI\<close> in \<open>(0, 1]\<close> and \<open>eta > 1\<close> the value
  \<open>R0 + (1 - R0) (1 - cosI)\<^sup>5\<close> with \<open>R0 = ((eta - 1) / (eta + 1))\<^sup>2\<close> that the refractive
  branch computes lies in \<open>[0, 1]\<close>; the blend weighs the reflected colour by it and the
  refracted colour by one minus it, and the two weights add up to 1.
\<close>

theorem C7_fresnel_weights:
  "0 < cosI \<and> cosI \<le> 1 \<and> 1 < eta1 \<longrightarrow>
     schlick eta1 cosI =
       ((eta1 - 1) / (eta1 + 1)) ^ 2 + (1 - ((eta1 - 1) / (eta1 + 1)) ^ 2) * (1 - cosI) ^ 5
     \<and> 0 \<le> schlick eta1 cosI \<and> schlick eta1 cosI \<le> 1
     \<and> fresnel_blend (schlick eta1 cosI) refractColor reflectColor =
         Vector3 (vx refractColor * (1 - schlick eta1 cosI) + vx reflectColor * schlick eta1 cosI)
                 (vy refractColor * (1 - schlick eta1 cosI) + vy reflectColor * schlick eta1 cosI)
                 (vz refractColor * (1 - schlick eta1 cosI) + vz reflectColor * schlick eta1 cosI)
     \<and> (1 - schlick eta1 cosI) + schlick eta1 cosI = 1
     \<and> fresnel_blend (schlick eta1 cosI) c c = c"
proof (intro impI conjI)
  assume a: "0 < cosI \<and> cosI \<le> 1 \<and> 1 < eta1"
  then show "schlick eta1 cosI =
       ((eta1 - 1) / (eta1 + 1)) ^ 2 + (1 - ((eta1 - 1) / (eta1 + 1)) ^ 2) * (1 - cosI) ^ 5"
    by (intro schlick_formula) simp
  from a show "0 \<le> schlick eta1 cosI" by (intro schlick_bounds) simp_all
  from a show "schlick eta1 cosI \<le> 1" by (intro schlick_bounds) simp_all
  show "fresnel_blend (schlick eta1 cosI) refractColor reflectColor =
         Vector3 (vx refractColor * (1 - schlick eta1 cosI) + vx reflectColor * schlick eta1 cosI)
                 (vy refractColor * (1 - schlick eta1 cosI) + vy reflectColor * schlick eta1 cosI)
                 (vz refractColor * (1 - schlick eta1 cosI) + vz reflectColor * schlick eta1 cosI)"
    by (rule fresnel_blend_weights)
  show "(1 - schlick eta1 cosI) + schlick eta1 cosI = 1" by simp
  show "fresnel_blend (schlick eta1 cosI) c c = c" by (rule fresnel_blend_same)
qed

text \<open>Glass seen head-on: \<open>eta = 1.5\<close> and \<open>cosI = 1\<close> give the Fresnel value \<open>1/25\<close>.\<close>

theorem C7_fresnel_weights_witness:
  "(0::real) < 1 \<and> (1::real) \<le> 1 \<and> (1::real) < 3 / 2
   \<and> schlick (3 / 2) 1 = 1 / 25
   \<and> 0 \<le> schlick (3 / 2) 1 \<and> schlick (3 / 2) 1 \<le> 1
   \<and> fresnel_blend (schlick (3 / 2) 1) (Vector3 1 0 0) (Vector3 0 1 0) = Vector3 (24 / 25) (1 / 25) 0"
proof -
  have v: "schlick (3 / 2) 1 = 1 / 25"
    by (simp add: schlick_def Let_def)
  have h: "(0::real) < 1 \<and> (1::real) \<le> 1 \<and> (1::real) < 3 / 2" by simp
  from C7_fresnel_weights [of 1 "3 / 2" "Vector3 1 0 0" "Vector3 0 1 0" "Vector3 0 0 0"] h
  have "0 \<le> schlick (3 / 2) 1 \<and> schlick (3 / 2) 1 \<le> 1
     \<and> fresnel_blend (schlick (3 / 2) 1) (Vector3 1 0 0) (Vector3 0 1 0) =
         Vector3 (vx (Vector3 1 0 0) * (1 - schlick (3 / 2) 1) + vx (Vector3 0 1 0) * schlick (3 / 2) 1)
                 (vy (Vector3 1 0 0) * (1 - schlick (3 / 2) 1) + vy (Vector3 0 1 0) * schlick (3 / 2) 1)
                 (vz (Vector3 1 0 0) * (1 - schlick (3 / 2) 1) + vz (Vector3 0 1 0) * schlick (3 / 2) 1)"
    by blast
  then show ?thesis unfolding v by simp
qed

section \<open>Gamma correction\<close>

lemma gamma_mono: "a \<le> b \<Longrightarrow> gamma_correct a \<le> gamma_correct b"
  unfolding gamma_correct_def by (intro powr_mono2) auto

lemma gamma_strict: "0 \<le> a \<Longrightarrow> a < b \<Longrightarrow> b \<le> 1 \<Longrightarrow> gamma_correct a < gamma_correct b"
  unfolding gamma_correct_def by (simp add: powr_less_mono2)

lemma gamma_range: "0 \<le> gamma_correct c" "gamma_correct c \<le> 1"
  unfolding gamma_correct_def by (simp_all add: powr_le1)

text \<open>
  Claim C8.  The gamma correction of \<^verbatim>\<open>render\<close> maps a channel \<open>c\<close> to the clamp of \<open>c\<close>
  to \<open>[0, 1]\<close> raised to 0.454 (for \<open>c\<close> in \<open>[0, 1]\<close>, to \<open>c\<close> raised to 0.454); the result
  of an input in \<open>[0, 1]\<close> is in \<open>[0, 1]\<close>; the correction is monotone, and strictly
  increasing on \<open>[0, 1]\<close>.  It is what \<open>render_pixel\<close> applies to the three channels.
\<close>

theorem C8_gamma_correct:
  "gamma_correct c = (max 0 (min c 1)) powr 0.454
   \<and> (0 \<le> c \<and> c \<le> 1 \<longrightarrow>
        gamma_correct c = c powr 0.454 \<and> 0 \<le> gamma_correct c \<and> gamma_correct c \<le> 1)
   \<and> (a \<le> b \<longrightarrow> gamma_correct a \<le> gamma_correct b)
   \<and> (0 \<le> a \<and> a < b \<and> b \<le> 1 \<longrightarrow> gamma_correct a < gamma_correct b)
   \<and> fst (render_pixel g sc x y s) =
       (to_byte (gamma_correct (vx (fst (trace g sc (primary_ray sc x y) 0 s)))),
        to_byte (gamma_correct (vy (fst (trace g sc (primary_ray sc x y) 0 s)))),
        to_byte (gamma_correct (vz (fst (trace g sc (primary_ray sc x y) 0 s)))))"
proof -
  have r: "0 \<le> c \<and> c \<le> 1 \<longrightarrow>
        gamma_correct c = c powr 0.454 \<and> 0 \<le> gamma_correct c \<and> gamma_correct c \<le> 1"
  proof (intro impI conjI)
    assume "0 \<le> c \<and> c \<le> 1"
    then show "gamma_correct c = c powr 0.454" by (simp add: gamma_correct_def)
    show "0 \<le> gamma_correct c" by (rule gamma_range(1))
    show "gamma_correct c \<le> 1" by (rule gamma_range(2))
  qed
  have d: "gamma_correct c = (max 0 (min c 1)) powr 0.454" by (simp add: gamma_correct_def)
  have p: "fst (render_pixel g sc x y s) =
       (to_byte (gamma_correct (vx (fst (trace g sc (primary_ray sc x y) 0 s)))),
        to_byte (gamma_correct (vy (fst (trace g sc (primary_ray sc x y) 0 s)))),
        to_byte (gamma_correct (vz (fst (trace g sc (primary_ray sc x y) 0 s)))))"
    by (simp add: render_pixel_def split: prod.splits)
  show ?thesis
    using d r p gamma_mono [of a b] gamma_strict [of a b] by blast
qed

text \<open>The ends of the range: 0 goes to 0 and 1 to 1, so \<open>0 < 1\<close> is kept strictly.\<close>

theorem C8_gamma_correct_witness:
  "(0::real) \<le> 0 \<and> (0::real) < 1 \<and> (1::real) \<le> 1
   \<and> gamma_correct 0 = 0 \<and> gamma_correct 1 = 1
   \<and> gamma_correct 0 \<le> gamma_correct 1 \<and> gamma_correct 0 < gamma_correct 1
   \<and> 0 \<le> gamma_correct 1 \<and> gamma_correct 1 \<le> 1"
proof -
  have v: "gamma_correct 0 = 0" "gamma_correct 1 = 1"
    by (simp_all add: gamma_correct_def)
  have h: "(0::real) \<le> 0 \<and> (0::real) < 1 \<and> (1::real) \<le> 1" "(0::real) \<le> 1"
    by simp_all
  from C8_gamma_correct [of 1 0 1 id_globals default_Scene 0 0 0] h
  have "gamma_correct 0 \<le> gamma_correct 1 \<and> gamma_correct 0 < gamma_correct 1
     \<and> 0 \<le> gamma_correct 1 \<and> gamma_correct 1 \<le> 1"
    by blast
  then show ?thesis using v h by blast
qed


section \<open>Scene::trace: the branches and the calls\<close>

lemma hasHit_wood: "hasHit (wood_override g st) = hasHit st"
  by (simp add: wood_override_def)

lemma trace_above_cap: "6 < depth \<Longrightarrow> trace g sc ray depth s = (bgColor sc, s)"
  by (subst trace.simps) simp

lemma trace_refractive:
  assumes "depth < 6" "hasHit (find_hit g sc ray)" "isRefractive (hitMat (find_hit g sc ray))"
  shows "trace g sc ray depth s =
     (if sinT2_of ray (find_hit g sc ray) < 1
      then (case trace g sc (refractRay_of ray (find_hit g sc ray)) (depth + 1) s of
              (refractColor, s1) \<Rightarrow>
                (case trace g sc (reflectRay_of ray (find_hit g sc ray)) (depth + 1) s1 of
                   (reflectColor, s2) \<Rightarrow>
                     (fresnel_blend (fresnel_of ray (find_hit g sc ray)) refractColor
                        reflectColor, s2)))
      else trace g sc (tirRay_of ray (find_hit g sc ray)) (depth + 1) s)"
proof -
  have h: "hasHit (planes_hit ray (objects_hit sc ray))"
    using assms(2) by (simp add: find_hit_def hasHit_wood)
  show ?thesis
    using assms(1,3) h
    by (subst trace.simps) (simp add: find_hit_def Let_def)
qed

lemma trace_local:
  assumes "depth \<le> 6" "hasHit (find_hit g sc ray)"
    "\<not> (isRefractive (hitMat (find_hit g sc ray)) \<and> depth < 6)"
    "\<not> (kr (hitMat (find_hit g sc ray)) > 0 \<and> depth < 6)"
  shows "trace g sc ray depth s = (local_illum sc (find_hit g sc ray), s)"
proof -
  have h: "hasHit (planes_hit ray (objects_hit sc ray))"
    using assms(2) by (simp add: find_hit_def hasHit_wood)
  show ?thesis
    using assms(1,3,4) h
    by (subst trace.simps) (auto simp add: find_hit_def Let_def)
qed

lemma rel_decreases:
  "trace_glossy_loop_rel y x \<Longrightarrow>
   (call_measure y, call_measure x) \<in> less_than <*lex*> less_than"
  by (erule trace_glossy_loop_rel.cases) auto

lemma wfp_trace_rel: "wfp trace_glossy_loop_rel"
proof -
  have "wf (inv_image (less_than <*lex*> less_than) call_measure)"
    by (intro wf_inv_image wf_lex_prod wf_less_than)
  moreover have "{(y, x). trace_glossy_loop_rel y x}
      \<subseteq> inv_image (less_than <*lex*> less_than) call_measure"
    using rel_decreases by (auto simp: inv_image_def)
  ultimately have "wf {(y, x). trace_glossy_loop_rel y x}" by (rule wf_subset)
  then show ?thesis by (simp add: wfp_def)
qed

lemma trace_dom_all: "trace_glossy_loop_dom x"
  using wfp_trace_rel by (simp add: wfp_iff_accp)

lemma loop_next_depth: "loop_next\<^sup>*\<^sup>* l l0 \<Longrightarrow> loop_depth l = loop_depth l0"
proof (induction rule: rtranclp_induct)
  case base
  show ?case by simp
next
  case (step y z)
  from step.hyps(2) have "loop_depth z = loop_depth y"
    unfolding loop_next_def by (cases rule: trace_glossy_loop_rel.cases) auto
  with step.IH show ?case by simp
qed

lemma trace_call_depth:
  assumes "trace_call c' c"
  shows "depth_of c' = depth_of c + 1 \<and> depth_of c < 6"
  using assms unfolding trace_call_def
proof (elim disjE exE conjE)
  assume "trace_glossy_loop_rel (Inl c') (Inl c)"
  then show ?thesis by (cases rule: trace_glossy_loop_rel.cases) auto
next
  fix l l0
  assume a: "trace_glossy_loop_rel (Inl c') (Inr l)" and b: "loop_next\<^sup>*\<^sup>* l l0"
    and c: "trace_glossy_loop_rel (Inr l0) (Inl c)"
  from a have 1: "depth_of c' = loop_depth l + 1"
    by (cases rule: trace_glossy_loop_rel.cases) auto
  from c have 2: "loop_depth l0 = depth_of c \<and> depth_of c < 6"
    by (cases rule: trace_glossy_loop_rel.cases) auto
  from 1 2 loop_next_depth [OF b] show ?thesis by simp
qed

lemma trace_call_reach:
  "trace_call\<^sup>*\<^sup>* c' c \<Longrightarrow>
   depth_of c \<le> depth_of c' \<and> (depth_of c \<le> 6 \<longrightarrow> depth_of c' \<le> 6)"
proof (induction rule: rtranclp_induct)
  case base
  show ?case by simp
next
  case (step y z)
  from trace_call_depth [OF step.hyps(2)] step.IH show ?case by auto
qed

section \<open>A glass sphere seen from above\<close>

lemma down_ray_eq: "down_ray = \<lparr>origin = Vector3 0 (5 / 2) 0, direction = Vector3 0 (- 1) 0\<rparr>"
  by (simp add: down_ray_def vec_defs)

lemma glass_scene_fields:
  "spheres glass_scene = [\<lparr>center = Vector3 0 1 0, radius = 1 / 2, mat = glass\<rparr>]"
  "boxes glass_scene = []"
  "lightPos glass_scene = Vector3 0 (29 / 10) 0"
  "lightColor glass_scene = Vector3 (3 / 2) (3 / 2) (3 / 2)"
  "bgColor glass_scene = Vector3 (17 / 20) (17 / 20) (17 / 20)"
  "cameraPos glass_scene = Vector3 0 (3 / 2) (5 / 2)"
  by (simp_all add: glass_scene_def default_Scene_def)

lemma glass_find:
  "find_hit g glass_scene down_ray =
     \<lparr>tMin = 1, hitMat = glass, hitPoint = Vector3 0 (3 / 2) 0, hitNormal = Vector3 0 1 0,
      hasHit = True, isBox = False\<rparr>"
proof -
  have s: "sqrt (1 / 4) = 1 / 2" using sqrt_sq [of "1 / 2"] by simp
  have i: "Sphere_intersect \<lparr>center = Vector3 0 1 0, radius = 1 / 2, mat = glass\<rparr> down_ray
      = Some 1"
    by (simp add: Sphere_intersect_def down_ray_eq vec_defs Let_def)
  have o: "objects_hit glass_scene down_ray =
     \<lparr>tMin = 1, hitMat = glass, hitPoint = Vector3 0 (3 / 2) 0, hitNormal = Vector3 0 1 0,
      hasHit = True, isBox = False\<rparr>"
    using i
    by (simp add: objects_hit_def glass_scene_fields sphere_step_def init_HitState_def
        Let_def down_ray_eq vec_defs s real_sqrt_divide)
  show ?thesis
    unfolding find_hit_def o
    by (simp add: wood_override_def plane_defs down_ray_eq vec_defs Let_def)
qed

lemma glass_local: "local_illum glass_scene (find_hit g glass_scene down_ray) = Vector3 0 0 0"
proof -
  have s1: "sqrt (49 / 25) = 7 / 5" using sqrt_sq [of "7 / 5"] by simp
  have s2: "sqrt (25 / 4) = 5 / 2" using sqrt_sq [of "5 / 2"] by simp
  let ?h = "\<lparr>tMin = 1, hitMat = glass, hitPoint = Vector3 0 (3 / 2) 0,
      hitNormal = Vector3 0 1 0, hasHit = True, isBox = False\<rparr>"
  have ld: "lightDir_of glass_scene ?h = Vector3 0 1 0"
    by (simp add: lightDir_of_def glass_scene_fields vec_defs s1 Let_def)
  have dist: "lightDist_of glass_scene ?h = 7 / 5"
    by (simp add: lightDist_of_def glass_scene_fields vec_defs s1 Let_def)
  have sr: "shadowRay_of glass_scene ?h =
      \<lparr>origin = Vector3 0 (1501 / 1000) 0, direction = Vector3 0 1 0\<rparr>"
    by (simp add: shadowRay_of_def ld) (simp add: vec_defs)
  have ns: "\<not> inShadow glass_scene ?h"
    unfolding inShadow_def sr dist
    by (simp add: glass_scene_fields Sphere_intersect_def vec_defs Let_def)
  show ?thesis
    unfolding glass_find local_illum_def Let_def ld dist using ns
    by (simp add: glass_scene_fields glass_def default_Material_def vec_defs powf_def s2 Let_def)
qed

lemma glass_refract:
  "refract_setup down_ray (find_hit g glass_scene down_ray) = (1, Vector3 0 1 0, 3 / 2)"
  "sinT2_of down_ray (find_hit g glass_scene down_ray) = 0"
  "fresnel_of down_ray (find_hit g glass_scene down_ray) = 1 / 25"
proof -
  show r: "refract_setup down_ray (find_hit g glass_scene down_ray) = (1, Vector3 0 1 0, 3 / 2)"
    unfolding glass_find
    by (simp add: refract_setup_def down_ray_eq dot_def glass_def default_Material_def Let_def)
  show "sinT2_of down_ray (find_hit g glass_scene down_ray) = 0"
    by (simp add: sinT2_of_def r)
  show "fresnel_of down_ray (find_hit g glass_scene down_ray) = 1 / 25"
    by (simp add: fresnel_of_def r schlick_def Let_def)
qed


section \<open>Two facing mirrors\<close>

lemma fwd_ray_eq: "fwd_ray = \<lparr>origin = Vector3 0 (3 / 2) (- (999 / 1000)), direction = Vector3 0 0 1\<rparr>"
  by (simp add: fwd_ray_def vec_defs)

lemma bwd_ray_eq: "bwd_ray = \<lparr>origin = Vector3 0 (3 / 2) (999 / 1000), direction = Vector3 0 0 (- 1)\<rparr>"
  by (simp add: bwd_ray_def vec_defs)

lemma mirror_scene_fields:
  "spheres mirror_scene =
     [\<lparr>center = Vector3 0 (3 / 2) (- 2), radius = 1, mat = redMirror\<rparr>,
      \<lparr>center = Vector3 0 (3 / 2) 2, radius = 1, mat = redMirror\<rparr>]"
  "boxes mirror_scene = []"
  by (simp_all add: mirror_scene_def default_Scene_def)

lemma mirror_fwd_find:
  "find_hit g mirror_scene fwd_ray =
     \<lparr>tMin = 1999 / 1000, hitMat = redMirror, hitPoint = Vector3 0 (3 / 2) 1,
      hitNormal = Vector3 0 0 (- 1), hasHit = True, isBox = False\<rparr>"
proof -
  have i1: "Sphere_intersect \<lparr>center = Vector3 0 (3 / 2) (- 2), radius = 1, mat = redMirror\<rparr>
      fwd_ray = None"
    by (simp add: Sphere_intersect_def fwd_ray_eq vec_defs Let_def)
  have i2: "Sphere_intersect \<lparr>center = Vector3 0 (3 / 2) 2, radius = 1, mat = redMirror\<rparr>
      fwd_ray = Some (1999 / 1000)"
    by (simp add: Sphere_intersect_def fwd_ray_eq vec_defs Let_def)
  have o: "objects_hit mirror_scene fwd_ray =
     \<lparr>tMin = 1999 / 1000, hitMat = redMirror, hitPoint = Vector3 0 (3 / 2) 1,
      hitNormal = Vector3 0 0 (- 1), hasHit = True, isBox = False\<rparr>"
    using i1 i2
    by (simp add: objects_hit_def mirror_scene_fields sphere_step_def init_HitState_def
        Let_def fwd_ray_eq vec_defs)
  show ?thesis
    unfolding find_hit_def o
    by (simp add: wood_override_def plane_defs fwd_ray_eq vec_defs Let_def)
qed

lemma mirror_bwd_find:
  "find_hit g mirror_scene bwd_ray =
     \<lparr>tMin = 1999 / 1000, hitMat = redMirror, hitPoint = Vector3 0 (3 / 2) (- 1),
      hitNormal = Vector3 0 0 1, hasHit = True, isBox = False\<rparr>"
proof -
  have i1: "Sphere_intersect \<lparr>center = Vector3 0 (3 / 2) (- 2), radius = 1, mat = redMirror\<rparr>
      bwd_ray = Some (1999 / 1000)"
    by (simp add: Sphere_intersect_def bwd_ray_eq vec_defs Let_def)
  have i2: "Sphere_intersect \<lparr>center = Vector3 0 (3 / 2) 2, radius = 1, mat = redMirror\<rparr>
      bwd_ray = None"
    by (simp add: Sphere_intersect_def bwd_ray_eq vec_defs Let_def)
  have o: "objects_hit mirror_scene bwd_ray =
     \<lparr>tMin = 1999 / 1000, hitMat = redMirror, hitPoint = Vector3 0 (3 / 2) (- 1),
      hitNormal = Vector3 0 0 1, hasHit = True, isBox = False\<rparr>"
    using i1 i2
    by (simp add: objects_hit_def mirror_scene_fields sphere_step_def init_HitState_def
        Let_def bwd_ray_eq vec_defs)
  show ?thesis
    unfolding find_hit_def o
    by (simp add: wood_override_def plane_defs bwd_ray_eq vec_defs Let_def)
qed

text \<open>
  A call of \<open>trace\<close> below depth 6 whose nearest hit is a smooth mirror (not refractive,
  \<open>kr > 0\<close>, roughness at most 0.001) calls \<open>trace\<close> on the mirror ray, through the one
  iteration of the sampling loop.
\<close>

lemma trace_call_mirror:
  assumes d: "depth < 6" and h: "hasHit (find_hit g sc ray)"
    and nr: "\<not> isRefractive (hitMat (find_hit g sc ray))"
    and k: "0 < kr (hitMat (find_hit g sc ray))"
    and r: "\<not> roughness (hitMat (find_hit g sc ray)) > 0.001"
  shows "trace_call
     (g, sc, mk_Ray (vadd (hitPoint (find_hit g sc ray))
                          (vscale (hitNormal (find_hit g sc ray)) 0.001))
                    (mirrorDir_of ray (find_hit g sc ray)), depth + 1, s)
     (g, sc, ray, depth, s)"
proof -
  let ?h = "find_hit g sc ray"
  let ?l = "(g, sc, ?h, mirrorDir_of ray ?h, depth, 0::nat, samples_of ?h, Vector3 0 0 0, s)"
  have f: "wood_override g (planes_hit ray (objects_hit sc ray)) = ?h"
    by (simp add: find_hit_def)
  have "trace_glossy_loop_rel
      (Inr (g, sc, wood_override g (planes_hit ray (objects_hit sc ray)),
            mirrorDir_of ray (wood_override g (planes_hit ray (objects_hit sc ray))), depth, 0,
            samples_of (wood_override g (planes_hit ray (objects_hit sc ray))),
            Vector3 0 0 0, s))
      (Inl (g, sc, ray, depth, s))"
  proof (rule trace_glossy_loop_rel.intros(4) [OF _ refl _ refl _ refl])
    show "\<not> 6 < depth" using d by simp
    show "\<not> \<not> hasHit (planes_hit ray (objects_hit sc ray))"
      using h by (simp add: find_hit_def hasHit_wood)
    show "\<not> (isRefractive (hitMat (wood_override g (planes_hit ray (objects_hit sc ray))))
            \<and> depth < 6)"
      unfolding f using nr by simp
    show "0 < kr (hitMat (wood_override g (planes_hit ray (objects_hit sc ray)))) \<and> depth < 6"
      unfolding f using k d by simp
  qed
  then have enter: "trace_glossy_loop_rel (Inr ?l) (Inl (g, sc, ray, depth, s))"
    unfolding f .
  have p: "(mirrorDir_of ray ?h, s) = perturb g ?h (mirrorDir_of ray ?h) s"
    using r by (simp add: perturb_def)
  have n: "(0::nat) < samples_of ?h" by (simp add: samples_of_def)
  have "trace_glossy_loop_rel
      (Inl (g, sc, mk_Ray (vadd (hitPoint ?h) (vscale (hitNormal ?h) (1 / 10 ^ 3)))
                          (mirrorDir_of ray ?h), depth + 1, s))
      (Inr ?l)"
    by (rule trace_glossy_loop_rel.intros(5) [OF n p])
  then have sample: "trace_glossy_loop_rel
      (Inl (g, sc, mk_Ray (vadd (hitPoint ?h) (vscale (hitNormal ?h) 0.001))
                          (mirrorDir_of ray ?h), depth + 1, s))
      (Inr ?l)"
    by simp
  have "loop_next\<^sup>*\<^sup>* ?l ?l" by simp
  with enter sample show ?thesis
    unfolding trace_call_def by blast
qed

lemma mirror_fwd_call:
  "depth < 6 \<Longrightarrow>
   trace_call (g, mirror_scene, bwd_ray, depth + 1, s) (g, mirror_scene, fwd_ray, depth, s)"
proof -
  assume d: "depth < 6"
  let ?h = "find_hit g mirror_scene fwd_ray"
  have m: "hasHit ?h" "\<not> isRefractive (hitMat ?h)" "0 < kr (hitMat ?h)"
    "\<not> roughness (hitMat ?h) > 0.001"
    by (simp_all add: mirror_fwd_find redMirror_def default_Material_def)
  have e: "mk_Ray (vadd (hitPoint ?h) (vscale (hitNormal ?h) 0.001)) (mirrorDir_of fwd_ray ?h)
      = bwd_ray"
    unfolding mirror_fwd_find
    by (simp add: mirrorDir_of_def fwd_ray_eq bwd_ray_eq vec_defs)
  from trace_call_mirror [OF d m, of s] show ?thesis unfolding e .
qed

lemma mirror_bwd_call:
  "depth < 6 \<Longrightarrow>
   trace_call (g, mirror_scene, fwd_ray, depth + 1, s) (g, mirror_scene, bwd_ray, depth, s)"
proof -
  assume d: "depth < 6"
  let ?h = "find_hit g mirror_scene bwd_ray"
  have m: "hasHit ?h" "\<not> isRefractive (hitMat ?h)" "0 < kr (hitMat ?h)"
    "\<not> roughness (hitMat ?h) > 0.001"
    by (simp_all add: mirror_bwd_find redMirror_def default_Material_def)
  have e: "mk_Ray (vadd (hitPoint ?h) (vscale (hitNormal ?h) 0.001)) (mirrorDir_of bwd_ray ?h)
      = fwd_ray"
    unfolding mirror_bwd_find
    by (simp add: mirrorDir_of_def fwd_ray_eq bwd_ray_eq vec_defs)
  from trace_call_mirror [OF d m, of s] show ?thesis unfolding e .
qed

lemma mirror_chain:
  "trace_call\<^sup>*\<^sup>* (g, mirror_scene, fwd_ray, 6, s) (g, mirror_scene, fwd_ray, 0, s)"
proof -
  have 1: "trace_call (g, mirror_scene, bwd_ray, 1, s) (g, mirror_scene, fwd_ray, 0, s)"
    using mirror_fwd_call [of 0 g s] by simp
  have 2: "trace_call (g, mirror_scene, fwd_ray, 2, s) (g, mirror_scene, bwd_ray, 1, s)"
    using mirror_bwd_call [of 1 g s] by simp
  have 3: "trace_call (g, mirror_scene, bwd_ray, 3, s) (g, mirror_scene, fwd_ray, 2, s)"
    using mirror_fwd_call [of 2 g s] by simp
  have 4: "trace_call (g, mirror_scene, fwd_ray, 4, s) (g, mirror_scene, bwd_ray, 3, s)"
    using mirror_bwd_call [of 3 g s] by simp
  have 5: "trace_call (g, mirror_scene, bwd_ray, 5, s) (g, mirror_scene, fwd_ray, 4, s)"
    using mirror_fwd_call [of 4 g s] by simp
  have 6: "trace_call (g, mirror_scene, fwd_ray, 6, s) (g, mirror_scene, bwd_ray, 5, s)"
    using mirror_bwd_call [of 5 g s] by simp
  from 6 5 4 3 2 1 show ?thesis
    by (meson rtranclp.rtrancl_into_rtrancl rtranclp.rtrancl_refl)
qed

section \<open>The recursion cap\<close>

text \<open>
  Claim C2.  \<^verbatim>\<open>trace\<close> called with a depth above 6 returns the background colour.
  Every call of \<^verbatim>\<open>trace\<close> made by a call of \<^verbatim>\<open>trace\<close> (for refraction, reflection or a
  glossy sample) has the depth of its caller plus 1, and the caller's depth is below 6.
  So the calls that \<open>trace ray 0\<close> leads to have depths from 0 to 6, and the recursion
  is well-founded: every argument lies in the accessible part of the call relation.
  Depth 6 is reached: between the two mirrors of \<open>mirror_scene\<close> the call at depth 0
  leads to a call at depth 6.
\<close>

theorem C2_depth_cap:
  "(6 < depth \<longrightarrow> trace g sc ray depth s = (bgColor sc, s))
   \<and> (trace_call c' c \<longrightarrow> depth_of c' = depth_of c + 1 \<and> depth_of c < 6)
   \<and> (trace_call\<^sup>*\<^sup>* c' (g, sc, ray, 0, s) \<longrightarrow> 0 \<le> depth_of c' \<and> depth_of c' \<le> 6)
   \<and> trace_glossy_loop_dom (Inl (g, sc, ray, 0, s))
   \<and> wfp trace_glossy_loop_rel
   \<and> trace_call\<^sup>*\<^sup>* (g, mirror_scene, fwd_ray, 6, s) (g, mirror_scene, fwd_ray, 0, s)"
proof (intro conjI impI)
  assume "6 < depth"
  then show "trace g sc ray depth s = (bgColor sc, s)" by (rule trace_above_cap)
next
  assume "trace_call c' c"
  then show "depth_of c' = depth_of c + 1" by (simp add: trace_call_depth)
next
  assume "trace_call c' c"
  then show "depth_of c < 6" by (simp add: trace_call_depth)
next
  assume "trace_call\<^sup>*\<^sup>* c' (g, sc, ray, 0, s)"
  from trace_call_reach [OF this] show "0 \<le> depth_of c'" by simp
next
  assume "trace_call\<^sup>*\<^sup>* c' (g, sc, ray, 0, s)"
  from trace_call_reach [OF this] show "depth_of c' \<le> 6" by simp
next
  show "trace_glossy_loop_dom (Inl (g, sc, ray, 0, s))" by (rule trace_dom_all)
next
  show "wfp trace_glossy_loop_rel" by (rule wfp_trace_rel)
next
  show "trace_call\<^sup>*\<^sup>* (g, mirror_scene, fwd_ray, 6, s) (g, mirror_scene, fwd_ray, 0, s)"
    by (rule mirror_chain)
qed

text \<open>
  At depth 7 the glass scene gives the background.  At depth 0 the ray meets the glass
  sphere, and the call for the refracted ray is a call at depth 1.
\<close>

theorem C2_depth_cap_witness:
  "(6::int) < 7
   \<and> trace id_globals glass_scene down_ray 7 0 = (Vector3 (17 / 20) (17 / 20) (17 / 20), 0)
   \<and> trace_call
        (id_globals, glass_scene,
         refractRay_of down_ray (find_hit id_globals glass_scene down_ray), 1, 0)
        (id_globals, glass_scene, down_ray, 0, 0)
   \<and> trace_call\<^sup>*\<^sup>*
        (id_globals, glass_scene,
         refractRay_of down_ray (find_hit id_globals glass_scene down_ray), 1, 0)
        (id_globals, glass_scene, down_ray, 0, 0)
   \<and> depth_of (id_globals, glass_scene,
         refractRay_of down_ray (find_hit id_globals glass_scene down_ray), 1::int, 0::nat)
       = depth_of (id_globals, glass_scene, down_ray, 0::int, 0::nat) + 1
   \<and> depth_of (id_globals, glass_scene, down_ray, 0::int, 0::nat) < 6
   \<and> depth_of (id_globals, glass_scene,
         refractRay_of down_ray (find_hit id_globals glass_scene down_ray), 1::int, 0::nat) \<le> 6"
proof -
  let ?c' = "(id_globals, glass_scene,
         refractRay_of down_ray (find_hit id_globals glass_scene down_ray), 1::int, 0::nat)"
  let ?c = "(id_globals, glass_scene, down_ray, 0::int, 0::nat)"
  have f: "wood_override id_globals (planes_hit down_ray (objects_hit glass_scene down_ray))
      = find_hit id_globals glass_scene down_ray"
    by (simp add: find_hit_def)
  have "trace_glossy_loop_rel
      (Inl (id_globals, glass_scene,
            refractRay_of down_ray
              (wood_override id_globals (planes_hit down_ray (objects_hit glass_scene down_ray))),
            0 + 1, 0))
      (Inl (id_globals, glass_scene, down_ray, 0, 0))"
  proof (rule trace_glossy_loop_rel.intros(1) [OF _ refl _ refl])
    show "\<not> (6::int) < 0" by simp
    have "hasHit (find_hit id_globals glass_scene down_ray)" by (simp add: glass_find)
    then show "\<not> \<not> hasHit (planes_hit down_ray (objects_hit glass_scene down_ray))"
      by (simp add: find_hit_def hasHit_wood)
    show "isRefractive (hitMat (wood_override id_globals
              (planes_hit down_ray (objects_hit glass_scene down_ray)))) \<and> (0::int) < 6"
      unfolding f by (simp add: glass_find glass_def)
    show "sinT2_of down_ray (wood_override id_globals
              (planes_hit down_ray (objects_hit glass_scene down_ray))) < 1"
      unfolding f by (simp add: glass_refract)
  qed
  then have call: "trace_call ?c' ?c"
    unfolding f by (simp add: trace_call_def)
  then have reach: "trace_call\<^sup>*\<^sup>* ?c' ?c" by (rule r_into_rtranclp)
  have seven: "(6::int) < 7" by simp
  from C2_depth_cap [of 7 id_globals glass_scene down_ray 0 ?c' ?c] seven call reach
  have "trace id_globals glass_scene down_ray 7 0 = (bgColor glass_scene, 0)
      \<and> depth_of ?c' = depth_of ?c + 1 \<and> depth_of ?c < 6 \<and> depth_of ?c' \<le> 6"
    by blast
  with seven call reach show ?thesis
    by (simp add: glass_scene_fields)
qed

section \<open>Refractive hits\<close>

text \<open>
  Claim C1, as the code has it.  At every depth below 6, when the nearest hit of
  \<^verbatim>\<open>trace\<close> has a refractive material, the result is the Fresnel blend of the traced
  refracted ray and the traced mirror ray, or the traced mirror ray alone under total
  internal reflection; neither the local illumination nor the \<open>kr\<close> blend enters it.
  (At depth 6 the guard \<^verbatim>\<open>depth < 6\<close> of line 433 sends a refractive hit to the local
  illumination, see the counterexample below.)
\<close>

theorem C1_refractive_below_cap:
  "depth < 6 \<and> hasHit (find_hit g sc ray) \<and> isRefractive (hitMat (find_hit g sc ray)) \<longrightarrow>
   trace g sc ray depth s =
     (if sinT2_of ray (find_hit g sc ray) < 1
      then (case trace g sc (refractRay_of ray (find_hit g sc ray)) (depth + 1) s of
              (refractColor, s1) \<Rightarrow>
                (case trace g sc (reflectRay_of ray (find_hit g sc ray)) (depth + 1) s1 of
                   (reflectColor, s2) \<Rightarrow>
                     (fresnel_blend (fresnel_of ray (find_hit g sc ray)) refractColor
                        reflectColor, s2)))
      else trace g sc (tirRay_of ray (find_hit g sc ray)) (depth + 1) s)"
  using trace_refractive [of depth g sc ray s] by blast

text \<open>The glass scene at depth 0: the hit is refractive and the ray refracts.\<close>

theorem C1_refractive_below_cap_witness:
  "(0::int) < 6 \<and> hasHit (find_hit id_globals glass_scene down_ray)
   \<and> isRefractive (hitMat (find_hit id_globals glass_scene down_ray))
   \<and> sinT2_of down_ray (find_hit id_globals glass_scene down_ray) < 1
   \<and> trace id_globals glass_scene down_ray 0 0 =
       (case trace id_globals glass_scene
               (refractRay_of down_ray (find_hit id_globals glass_scene down_ray)) 1 0 of
          (refractColor, s1) \<Rightarrow>
            (case trace id_globals glass_scene
                    (reflectRay_of down_ray (find_hit id_globals glass_scene down_ray)) 1 s1 of
               (reflectColor, s2) \<Rightarrow>
                 (fresnel_blend (1 / 25) refractColor reflectColor, s2)))"
proof -
  have h: "(0::int) < 6 \<and> hasHit (find_hit id_globals glass_scene down_ray)
     \<and> isRefractive (hitMat (find_hit id_globals glass_scene down_ray))"
    by (simp add: glass_find glass_def)
  have t: "sinT2_of down_ray (find_hit id_globals glass_scene down_ray) < 1"
    by (simp add: glass_refract)
  from C1_refractive_below_cap [of 0 id_globals glass_scene down_ray 0] h t
  show ?thesis by (simp add: glass_refract)
qed

text \<open>
  The claim as stated, for every depth, fails at depth 6: the nearest hit is the glass
  sphere and the ray would refract, but \<^verbatim>\<open>trace\<close> returns the local illumination of
  the hit, \<open>(0, 0, 0)\<close>, where the blend of the two traced rays is the background.
\<close>

theorem C1_depth6_counterexample:
  "hasHit (find_hit id_globals glass_scene down_ray)
   \<and> isRefractive (hitMat (find_hit id_globals glass_scene down_ray))
   \<and> sinT2_of down_ray (find_hit id_globals glass_scene down_ray) < 1
   \<and> trace id_globals glass_scene down_ray 6 0 =
       (local_illum glass_scene (find_hit id_globals glass_scene down_ray), 0)
   \<and> trace id_globals glass_scene down_ray 6 0 = (Vector3 0 0 0, 0)
   \<and> (case trace id_globals glass_scene
               (refractRay_of down_ray (find_hit id_globals glass_scene down_ray)) (6 + 1) 0 of
          (refractColor, s1) \<Rightarrow>
            (case trace id_globals glass_scene
                    (reflectRay_of down_ray (find_hit id_globals glass_scene down_ray))
                    (6 + 1) s1 of
               (reflectColor, s2) \<Rightarrow>
                 (fresnel_blend (fresnel_of down_ray (find_hit id_globals glass_scene down_ray))
                    refractColor reflectColor, s2)))
       = (Vector3 (17 / 20) (17 / 20) (17 / 20), 0)"
proof -
  have h: "hasHit (find_hit id_globals glass_scene down_ray)"
    "isRefractive (hitMat (find_hit id_globals glass_scene down_ray))"
    "kr (hitMat (find_hit id_globals glass_scene down_ray)) = 0"
    by (simp_all add: glass_find glass_def default_Material_def)
  have l: "trace id_globals glass_scene down_ray 6 0 =
       (local_illum glass_scene (find_hit id_globals glass_scene down_ray), 0)"
    using h by (intro trace_local) simp_all
  have b: "(case trace id_globals glass_scene
               (refractRay_of down_ray (find_hit id_globals glass_scene down_ray)) (6 + 1) 0 of
          (refractColor, s1) \<Rightarrow>
            (case trace id_globals glass_scene
                    (reflectRay_of down_ray (find_hit id_globals glass_scene down_ray))
                    (6 + 1) s1 of
               (reflectColor, s2) \<Rightarrow>
                 (fresnel_blend (fresnel_of down_ray (find_hit id_globals glass_scene down_ray))
                    refractColor reflectColor, s2)))
       = (Vector3 (17 / 20) (17 / 20) (17 / 20), 0)"
    by (simp add: trace_above_cap glass_scene_fields fresnel_blend_same)
  show ?thesis
    using h(1,2) l b by (simp add: glass_refract glass_local)
qed


section \<open>Shadows\<close>

lemma shadow_spheres_iff:
  "shadow_spheres r ld ss \<longleftrightarrow>
     (\<exists>sp\<in>set ss. \<exists>t. Sphere_intersect sp r = Some t \<and> t < ld - 0.001)"
  by (induction ss) (auto split: option.splits)

lemma shadow_boxes_iff:
  "shadow_boxes r ld bs \<longleftrightarrow>
     (\<exists>b\<in>set bs. \<exists>t n. Box_intersect b r = Hit t n \<and> t < ld - 0.001)"
  by (induction bs) (auto split: BoxResult.splits)

lemma inShadow_iff:
  "inShadow sc h \<longleftrightarrow>
     (\<exists>sp\<in>set (spheres sc). \<exists>t.
         Sphere_intersect sp (shadowRay_of sc h) = Some t \<and> t < lightDist_of sc h - 0.001)
     \<or> (\<exists>b\<in>set (boxes sc). \<exists>t n.
         Box_intersect b (shadowRay_of sc h) = Hit t n \<and> t < lightDist_of sc h - 0.001)"
  unfolding inShadow_def shadow_spheres_iff shadow_boxes_iff by (simp only: if_bool_eq_disj) blast

lemma local_illum_shadow:
  "inShadow sc h \<Longrightarrow> local_illum sc h = vscale (color (hitMat h)) (0.5 * ka (hitMat h))"
  by (simp add: local_illum_def Let_def vscale_def)

lemma shadow_ray_eq:
  "shadow_ray = \<lparr>origin = Vector3 0 (3 / 5) (4 / 5), direction = Vector3 0 (- 3 / 5) (- 4 / 5)\<rparr>"
proof -
  have "sqrt (9 / 25 + 16 / 25) = 1" by simp
  then show ?thesis by (simp add: shadow_ray_def vec_defs)
qed

lemma shadow_scene_fields:
  "spheres shadow_scene = [\<lparr>center = Vector3 0 1 0, radius = 1 / 2, mat = default_Material\<rparr>]"
  "boxes shadow_scene = []"
  "lightPos shadow_scene = Vector3 0 (29 / 10) 0"
  by (simp_all add: shadow_scene_def default_Scene_def)

lemma shadow_find:
  "find_hit g shadow_scene shadow_ray =
     \<lparr>tMin = 1, hitMat = floor_mat, hitPoint = Vector3 0 0 0, hitNormal = Vector3 0 1 0,
      hasHit = True, isBox = False\<rparr>"
proof -
  have i: "Sphere_intersect \<lparr>center = Vector3 0 1 0, radius = 1 / 2, mat = default_Material\<rparr>
      shadow_ray = None"
    by (simp add: Sphere_intersect_def shadow_ray_eq vec_defs Let_def)
  have o: "objects_hit shadow_scene shadow_ray = init_HitState"
    using i by (simp add: objects_hit_def shadow_scene_fields sphere_step_def)
  show ?thesis
    unfolding find_hit_def o
    by (simp add: wood_override_def plane_defs shadow_ray_eq vec_defs Let_def init_HitState_def
        trunc_int_def c_rem_def floor_mat_def)
qed

lemma shadow_occluded:
  "shadowRay_of shadow_scene (find_hit g shadow_scene shadow_ray) =
     \<lparr>origin = Vector3 0 (1 / 1000) 0, direction = Vector3 0 1 0\<rparr>"
  "lightDist_of shadow_scene (find_hit g shadow_scene shadow_ray) = 29 / 10"
  "Sphere_intersect \<lparr>center = Vector3 0 1 0, radius = 1 / 2, mat = default_Material\<rparr>
     \<lparr>origin = Vector3 0 (1 / 1000) 0, direction = Vector3 0 1 0\<rparr> = Some (499 / 1000)"
proof -
  have s: "sqrt (841 / 100) = 29 / 10" using sqrt_sq [of "29 / 10"] by simp
  let ?h = "\<lparr>tMin = 1, hitMat = floor_mat, hitPoint = Vector3 0 0 0,
      hitNormal = Vector3 0 1 0, hasHit = True, isBox = False\<rparr>"
  have ld: "lightDir_of shadow_scene ?h = Vector3 0 1 0"
    by (simp add: lightDir_of_def shadow_scene_fields vec_defs s Let_def)
  show "shadowRay_of shadow_scene (find_hit g shadow_scene shadow_ray) =
     \<lparr>origin = Vector3 0 (1 / 1000) 0, direction = Vector3 0 1 0\<rparr>"
    unfolding shadow_find by (simp add: shadowRay_of_def ld) (simp add: vec_defs)
  show "lightDist_of shadow_scene (find_hit g shadow_scene shadow_ray) = 29 / 10"
    unfolding shadow_find by (simp add: lightDist_of_def shadow_scene_fields vec_defs s)
  show "Sphere_intersect \<lparr>center = Vector3 0 1 0, radius = 1 / 2, mat = default_Material\<rparr>
     \<lparr>origin = Vector3 0 (1 / 1000) 0, direction = Vector3 0 1 0\<rparr> = Some (499 / 1000)"
    by (simp add: Sphere_intersect_def vec_defs Let_def)
qed

text \<open>
  Claim C6.  The hit point is in shadow exactly when a sphere or a box meets the shadow
  ray, cast from the hit point moved by 0.001 along the normal toward the light, at a
  distance below the distance to the light minus 0.001.  And when \<^verbatim>\<open>trace\<close> shades its
  nearest hit (the depth is at most 6 and the refractive branch is not taken), the hit
  is in shadow and its material has \<open>kr = 0\<close>, the colour returned is \<open>0.5 ka color\<close>.
\<close>

theorem C6_shadow:
  "shadowRay_of sc h =
     mk_Ray (vadd (hitPoint h) (vscale (hitNormal h) 0.001))
            (normalize_vec (vsub (lightPos sc) (hitPoint h)))
   \<and> lightDist_of sc h = length_vec (vsub (lightPos sc) (hitPoint h))
   \<and> (inShadow sc h \<longleftrightarrow>
        (\<exists>sp\<in>set (spheres sc). \<exists>t.
            Sphere_intersect sp (shadowRay_of sc h) = Some t \<and> t < lightDist_of sc h - 0.001)
        \<or> (\<exists>b\<in>set (boxes sc). \<exists>t n.
            Box_intersect b (shadowRay_of sc h) = Hit t n \<and> t < lightDist_of sc h - 0.001))
   \<and> (depth \<le> 6 \<and> hasHit (find_hit g sc ray)
        \<and> \<not> (isRefractive (hitMat (find_hit g sc ray)) \<and> depth < 6)
        \<and> inShadow sc (find_hit g sc ray) \<and> kr (hitMat (find_hit g sc ray)) = 0 \<longrightarrow>
        trace g sc ray depth s =
          (vscale (color (hitMat (find_hit g sc ray))) (0.5 * ka (hitMat (find_hit g sc ray))), s))"
proof (intro conjI impI)
  show "shadowRay_of sc h =
     mk_Ray (vadd (hitPoint h) (vscale (hitNormal h) 0.001))
            (normalize_vec (vsub (lightPos sc) (hitPoint h)))"
    by (simp add: shadowRay_of_def lightDir_of_def)
  show "lightDist_of sc h = length_vec (vsub (lightPos sc) (hitPoint h))"
    by (simp add: lightDist_of_def)
  show "inShadow sc h \<longleftrightarrow>
        (\<exists>sp\<in>set (spheres sc). \<exists>t.
            Sphere_intersect sp (shadowRay_of sc h) = Some t \<and> t < lightDist_of sc h - 0.001)
        \<or> (\<exists>b\<in>set (boxes sc). \<exists>t n.
            Box_intersect b (shadowRay_of sc h) = Hit t n \<and> t < lightDist_of sc h - 0.001)"
    by (rule inShadow_iff)
next
  assume a: "depth \<le> 6 \<and> hasHit (find_hit g sc ray)
        \<and> \<not> (isRefractive (hitMat (find_hit g sc ray)) \<and> depth < 6)
        \<and> inShadow sc (find_hit g sc ray) \<and> kr (hitMat (find_hit g sc ray)) = 0"
  then have "trace g sc ray depth s = (local_illum sc (find_hit g sc ray), s)"
    by (intro trace_local) simp_all
  with a show "trace g sc ray depth s =
          (vscale (color (hitMat (find_hit g sc ray))) (0.5 * ka (hitMat (find_hit g sc ray))), s)"
    by (simp add: local_illum_shadow)
qed

text \<open>
  The floor point under the sphere of \<open>shadow_scene\<close>: the shadow ray meets the sphere
  at 0.499, the light is 2.9 away, and the colour is half the ambient term of the floor.
\<close>

theorem C6_shadow_witness:
  "(0::int) \<le> 6 \<and> hasHit (find_hit id_globals shadow_scene shadow_ray)
   \<and> \<not> isRefractive (hitMat (find_hit id_globals shadow_scene shadow_ray))
   \<and> kr (hitMat (find_hit id_globals shadow_scene shadow_ray)) = 0
   \<and> hitPoint (find_hit id_globals shadow_scene shadow_ray) = Vector3 0 0 0
   \<and> inShadow shadow_scene (find_hit id_globals shadow_scene shadow_ray)
   \<and> trace id_globals shadow_scene shadow_ray 0 0 =
       (Vector3 (243 / 8000) (27 / 1600) (27 / 4000), 0)"
proof -
  let ?h = "find_hit id_globals shadow_scene shadow_ray"
  have m: "hasHit ?h" "\<not> isRefractive (hitMat ?h)" "kr (hitMat ?h) = 0"
    "hitPoint ?h = Vector3 0 0 0"
    "color (hitMat ?h) = Vector3 (81 / 200) (9 / 40) (9 / 100)" "ka (hitMat ?h) = 3 / 20"
    by (simp_all add: shadow_find floor_mat_def default_Material_def)
  have "Sphere_intersect \<lparr>center = Vector3 0 1 0, radius = 1 / 2, mat = default_Material\<rparr>
        (shadowRay_of shadow_scene ?h) = Some (499 / 1000)
      \<and> (499 / 1000 :: real) < lightDist_of shadow_scene ?h - 0.001"
    by (simp add: shadow_occluded)
  then have ex: "\<exists>sp\<in>set (spheres shadow_scene). \<exists>t.
      Sphere_intersect sp (shadowRay_of shadow_scene ?h) = Some t
      \<and> t < lightDist_of shadow_scene ?h - 0.001"
    unfolding shadow_scene_fields by (intro bexI [where x = "\<lparr>center = Vector3 0 1 0, radius = 1 / 2, mat = default_Material\<rparr>"] exI [where x = "499 / 1000"]) simp_all
  from C6_shadow [of shadow_scene ?h 0 id_globals shadow_ray 0] ex
  have sh: "inShadow shadow_scene ?h" by blast
  have d: "(0::int) \<le> 6" by simp
  from C6_shadow [of shadow_scene ?h 0 id_globals shadow_ray 0] d m(1,2,3) sh
  have "trace id_globals shadow_scene shadow_ray 0 0 =
      (vscale (color (hitMat ?h)) (0.5 * ka (hitMat ?h)), 0)"
    by blast
  then have "trace id_globals shadow_scene shadow_ray 0 0 =
       (Vector3 (243 / 8000) (27 / 1600) (27 / 4000), 0)"
    by (simp add: m vscale_def)
  with d m sh show ?thesis by blast
qed


section \<open>The secondary rays of a refractive hit\<close>

lemma exit_ray_eq:
  "exit_ray = \<lparr>origin = Vector3 (- 3 / 5) (3 / 2) (1 / 5), direction = Vector3 (3 / 5) 0 (4 / 5)\<rparr>"
proof -
  have "sqrt (9 / 25 + 16 / 25) = 1" by simp
  then show ?thesis by (simp add: exit_ray_def vec_defs)
qed

lemma exit_find:
  "find_hit g exit_scene exit_ray =
     \<lparr>tMin = 1, hitMat = glass, hitPoint = Vector3 0 (3 / 2) 1, hitNormal = Vector3 0 0 1,
      hasHit = True, isBox = False\<rparr>"
proof -
  have s: "sqrt (64 / 25) = 8 / 5" using sqrt_sq [of "8 / 5"] by simp
  have i: "Sphere_intersect exit_sphere exit_ray = Some 1"
    by (simp add: Sphere_intersect_def exit_sphere_def exit_ray_eq vec_defs Let_def s)
  have o: "objects_hit exit_scene exit_ray =
     \<lparr>tMin = 1, hitMat = glass, hitPoint = Vector3 0 (3 / 2) 1, hitNormal = Vector3 0 0 1,
      hasHit = True, isBox = False\<rparr>"
    by (simp add: objects_hit_def exit_scene_def default_Scene_def sphere_step_def i
        init_HitState_def Let_def)
       (simp add: exit_sphere_def exit_ray_eq vec_defs)
  show ?thesis
    unfolding find_hit_def o
    by (simp add: wood_override_def plane_defs exit_ray_eq vec_defs Let_def)
qed

lemma exit_setup:
  "refract_setup exit_ray (find_hit g exit_scene exit_ray) = (4 / 5, Vector3 0 0 (- 1), 2 / 3)"
  unfolding exit_find
  by (simp add: refract_setup_def exit_ray_eq dot_def vscale_def glass_def default_Material_def
      Let_def)

lemma exit_reflectRay:
  "reflectRay_of exit_ray (find_hit g exit_scene exit_ray) =
     \<lparr>origin = Vector3 0 (3 / 2) (1001 / 1000), direction = Vector3 (3 / 5) 0 (- 4 / 5)\<rparr>"
proof -
  have "sqrt (9 / 25 + 16 / 25) = 1" by simp
  then show ?thesis
    unfolding exit_find by (simp add: reflectRay_of_def exit_ray_eq vec_defs Let_def)
qed

lemma exit_self_hit:
  "\<exists>t. Sphere_intersect exit_sphere
          \<lparr>origin = Vector3 0 (3 / 2) (1001 / 1000), direction = Vector3 (3 / 5) 0 (- 4 / 5)\<rparr>
        = Some t \<and> t < 2 / 1000"
proof -
  let ?r = "\<lparr>origin = Vector3 0 (3 / 2) (1001 / 1000), direction = Vector3 (3 / 5) 0 (- 4 / 5)\<rparr>"
  have a: "quad_a exit_sphere ?r = 1" and b: "quad_b exit_sphere ?r = - (1001 / 625)"
    and d: "quad_disc exit_sphere ?r = 15981991 / 6250000"
    by (simp_all add: quad_disc_def quad_a_def quad_b_def quad_c_def exit_sphere_def vec_defs)
  have lo: "(3994 / 2500 :: real) < sqrt (15981991 / 6250000)"
    by (rule real_less_rsqrt) (simp add: power2_eq_square)
  have hi: "sqrt (15981991 / 6250000) < (3999 / 2500 :: real)"
    by (rule real_less_lsqrt) (simp_all add: power2_eq_square)
  have r: "root_small exit_sphere ?r = (1001 / 625 - sqrt (15981991 / 6250000)) / 2"
    unfolding root_small_def a b d by simp
  have "1 / 1000 < root_small exit_sphere ?r" "root_small exit_sphere ?r < 2 / 1000"
    unfolding r using lo hi by simp_all
  then show ?thesis
    unfolding Sphere_intersect_roots d by simp
qed

text \<open>
  Claim C4, at a ray that leaves the glass sphere obliquely without total internal
  reflection.  The normal is flipped to \<open>n = (0, 0, -1)\<close>.  The refracted ray starts at
  \<open>hitPoint - n * 0.001\<close>, outside the sphere; the mirror ray, which goes back into the
  sphere, starts at \<open>hitPoint + hitNormal * 0.001\<close>, the same point outside, where the
  claim has \<open>hitPoint + n * 0.001\<close> (the origin that the branch for total internal
  reflection uses); it meets the sphere it left again below \<open>t = 0.002\<close>.
\<close>

theorem C4_reflect_origin_exiting:
  "hasHit (find_hit id_globals exit_scene exit_ray)
   \<and> isRefractive (hitMat (find_hit id_globals exit_scene exit_ray))
   \<and> hitPoint (find_hit id_globals exit_scene exit_ray) = Vector3 0 (3 / 2) 1
   \<and> hitNormal (find_hit id_globals exit_scene exit_ray) = Vector3 0 0 1
   \<and> refract_setup exit_ray (find_hit id_globals exit_scene exit_ray)
       = (4 / 5, Vector3 0 0 (- 1), 2 / 3)
   \<and> sinT2_of exit_ray (find_hit id_globals exit_scene exit_ray) < 1
   \<and> origin (refractRay_of exit_ray (find_hit id_globals exit_scene exit_ray))
       = Vector3 0 (3 / 2) (1001 / 1000)
   \<and> origin (reflectRay_of exit_ray (find_hit id_globals exit_scene exit_ray))
       = Vector3 0 (3 / 2) (1001 / 1000)
   \<and> direction (reflectRay_of exit_ray (find_hit id_globals exit_scene exit_ray))
       = Vector3 (3 / 5) 0 (- 4 / 5)
   \<and> vadd (hitPoint (find_hit id_globals exit_scene exit_ray)) (vscale (Vector3 0 0 (- 1)) 0.001)
       = Vector3 0 (3 / 2) (999 / 1000)
   \<and> origin (tirRay_of exit_ray (find_hit id_globals exit_scene exit_ray))
       = Vector3 0 (3 / 2) (999 / 1000)
   \<and> (\<exists>t. Sphere_intersect exit_sphere
              (reflectRay_of exit_ray (find_hit id_globals exit_scene exit_ray)) = Some t
            \<and> t < 2 / 1000)"
proof -
  let ?h = "find_hit id_globals exit_scene exit_ray"
  have 1: "hasHit ?h" "isRefractive (hitMat ?h)" "hitPoint ?h = Vector3 0 (3 / 2) 1"
    "hitNormal ?h = Vector3 0 0 1"
    by (simp_all add: exit_find glass_def)
  have 2: "sinT2_of exit_ray ?h < 1"
    by (simp add: sinT2_of_def exit_setup)
  have 3: "origin (refractRay_of exit_ray ?h) = Vector3 0 (3 / 2) (1001 / 1000)"
    by (simp add: refractRay_of_def exit_setup mk_Ray_def Let_def 1 vsub_def vscale_def)
  have 4: "origin (tirRay_of exit_ray ?h) = Vector3 0 (3 / 2) (999 / 1000)"
    by (simp add: tirRay_of_def exit_setup mk_Ray_def Let_def 1 vadd_def vscale_def)
  have 5: "vadd (hitPoint ?h) (vscale (Vector3 0 0 (- 1)) 0.001) = Vector3 0 (3 / 2) (999 / 1000)"
    by (simp add: 1 vadd_def vscale_def)
  show ?thesis
    using 1 2 3 4 5 exit_self_hit by (simp add: exit_setup exit_reflectRay)
qed


section \<open>The material of a plane hit\<close>

lemma floor_step_mat:
  "floor_step ray st = st
   \<or> (tMin (floor_step ray st) < tMin st \<and> hasHit (floor_step ray st)
       \<and> \<not> isBox (floor_step ray st)
       \<and> (\<exists>col. hitMat (floor_step ray st) =
             (hitMat st)\<lparr>color := col, ka := 0.15, kd := 0.75, ks := 0.15, kr := 0,
                          shininess := 20, isMetallic := False, roughness := 0\<rparr>))"
proof (cases "planeIntersect ray (Vector3 0 0 0) (Vector3 0 1 0)")
  case None
  then show ?thesis by (simp add: floor_step_def)
next
  case (Some tPlane)
  then show ?thesis
    by (simp add: floor_step_def Let_def) blast
qed

lemma leftWall_step_mat:
  "leftWall_step ray st = st
   \<or> (tMin (leftWall_step ray st) < tMin st \<and> hasHit (leftWall_step ray st)
       \<and> \<not> isBox (leftWall_step ray st)
       \<and> hitMat (leftWall_step ray st) =
           (hitMat st)\<lparr>color := Vector3 0.75 0.1 0.1, ka := 0.1, kd := 0.8, ks := 0.05,
                        kr := 0, isMetallic := False, roughness := 0\<rparr>)"
proof (cases "planeIntersect ray (Vector3 (- 1.5) 0 0) (Vector3 1 0 0)")
  case None
  then show ?thesis by (simp add: leftWall_step_def)
next
  case (Some tPlane)
  then show ?thesis
    by (simp add: leftWall_step_def wall_update_def Let_def)
qed

lemma rightWall_step_mat:
  "rightWall_step ray st = st
   \<or> (tMin (rightWall_step ray st) < tMin st \<and> hasHit (rightWall_step ray st)
       \<and> \<not> isBox (rightWall_step ray st)
       \<and> hitMat (rightWall_step ray st) =
           (hitMat st)\<lparr>color := Vector3 0.1 0.75 0.1, ka := 0.1, kd := 0.8, ks := 0.05,
                        kr := 0, isMetallic := False, roughness := 0\<rparr>)"
proof (cases "planeIntersect ray (Vector3 1.5 0 0) (Vector3 (- 1) 0 0)")
  case None
  then show ?thesis by (simp add: rightWall_step_def)
next
  case (Some tPlane)
  then show ?thesis
    by (simp add: rightWall_step_def wall_update_def Let_def)
qed

lemma backWall_step_mat:
  "backWall_step ray st = st
   \<or> (tMin (backWall_step ray st) < tMin st \<and> hasHit (backWall_step ray st)
       \<and> \<not> isBox (backWall_step ray st)
       \<and> hitMat (backWall_step ray st) =
           (hitMat st)\<lparr>color := Vector3 0.85 0.85 0.85, ka := 0.1, kd := 0.8, ks := 0.05,
                        kr := 0, isMetallic := False, roughness := 0\<rparr>)"
proof (cases "planeIntersect ray (Vector3 0 0 (- 1.5)) (Vector3 0 0 1)")
  case None
  then show ?thesis by (simp add: backWall_step_def)
next
  case (Some tPlane)
  then show ?thesis
    by (simp add: backWall_step_def wall_update_def Let_def)
qed

lemma ceiling_step_mat:
  "ceiling_step ray st = st
   \<or> (tMin (ceiling_step ray st) < tMin st \<and> hasHit (ceiling_step ray st)
       \<and> \<not> isBox (ceiling_step ray st)
       \<and> hitMat (ceiling_step ray st) =
           (hitMat st)\<lparr>color := Vector3 0.85 0.85 0.85, ka := 0.1, kd := 0.8, ks := 0.05,
                        kr := 0, isMetallic := False, roughness := 0\<rparr>)"
proof (cases "planeIntersect ray (Vector3 0 3 0) (Vector3 0 (- 1) 0)")
  case None
  then show ?thesis by (simp add: ceiling_step_def)
next
  case (Some tPlane)
  then show ?thesis
    by (simp add: ceiling_step_def wall_update_def Let_def)
qed

lemma plane_kept_trans [trans]: "plane_kept a b \<Longrightarrow> plane_kept b c \<Longrightarrow> plane_kept a c"
  unfolding plane_kept_def by (elim conjE disjE) simp_all

lemma plane_kept_floor: "plane_kept st (floor_step ray st)"
  using floor_step_mat [of ray st] unfolding plane_kept_def
  by (elim disjE conjE exE) simp_all

lemma plane_kept_leftWall: "plane_kept st (leftWall_step ray st)"
  using leftWall_step_mat [of ray st] unfolding plane_kept_def
  by (elim disjE conjE) simp_all

lemma plane_kept_rightWall: "plane_kept st (rightWall_step ray st)"
  using rightWall_step_mat [of ray st] unfolding plane_kept_def
  by (elim disjE conjE) simp_all

lemma plane_kept_backWall: "plane_kept st (backWall_step ray st)"
  using backWall_step_mat [of ray st] unfolding plane_kept_def
  by (elim disjE conjE) simp_all

lemma plane_kept_ceiling: "plane_kept st (ceiling_step ray st)"
  using ceiling_step_mat [of ray st] unfolding plane_kept_def
  by (elim disjE conjE) simp_all

lemma plane_kept_planes_hit: "plane_kept st (planes_hit ray st)"
proof -
  let ?a = "floor_step ray st"
  let ?b = "leftWall_step ray ?a"
  let ?c = "rightWall_step ray ?b"
  let ?d = "backWall_step ray ?c"
  have "plane_kept st ?a" by (rule plane_kept_floor)
  also have "plane_kept ?a ?b" by (rule plane_kept_leftWall)
  also have "plane_kept ?b ?c" by (rule plane_kept_rightWall)
  also have "plane_kept ?c ?d" by (rule plane_kept_backWall)
  also have "plane_kept ?d (ceiling_step ray ?d)" by (rule plane_kept_ceiling)
  finally show ?thesis by (simp add: planes_hit_def)
qed


lemma wall_ray_eq: "wall_ray = \<lparr>origin = Vector3 0 (9 / 10) 0, direction = Vector3 (- 1) 0 0\<rparr>"
  by (simp add: wall_ray_def vec_defs)

lemma wall_scene_fields:
  "spheres (wall_scene sh) =
     [\<lparr>center = Vector3 (- 3) (9 / 10) 0, radius = 1 / 2, mat = glass\<lparr>shininess := sh\<rparr>\<rparr>]"
  "boxes (wall_scene sh) = []"
  by (simp_all add: wall_scene_def default_Scene_def)

lemma wall_objects:
  "objects_hit (wall_scene sh) wall_ray =
     \<lparr>tMin = 5 / 2, hitMat = glass\<lparr>shininess := sh\<rparr>, hitPoint = Vector3 (- 5 / 2) (9 / 10) 0,
      hitNormal = Vector3 1 0 0, hasHit = True, isBox = False\<rparr>"
proof -
  have s: "sqrt (1 / 4) = 1 / 2" using sqrt_sq [of "1 / 2"] by simp
  have i: "Sphere_intersect
      \<lparr>center = Vector3 (- 3) (9 / 10) 0, radius = 1 / 2, mat = glass\<lparr>shininess := sh\<rparr>\<rparr>
      wall_ray = Some (5 / 2)"
    by (simp add: Sphere_intersect_def wall_ray_eq vec_defs Let_def)
  show ?thesis
    using i
    by (simp add: objects_hit_def wall_scene_fields sphere_step_def init_HitState_def
        Let_def wall_ray_eq vec_defs s real_sqrt_divide)
qed

lemma wall_find:
  "find_hit g (wall_scene sh) wall_ray =
     \<lparr>tMin = 3 / 2,
      hitMat = glass\<lparr>shininess := sh, color := Vector3 (3 / 4) (1 / 10) (1 / 10), ka := 1 / 10,
                    kd := 4 / 5, ks := 1 / 20, kr := 0, isMetallic := False, roughness := 0\<rparr>,
      hitPoint = Vector3 (- 3 / 2) (9 / 10) 0, hitNormal = Vector3 1 0 0,
      hasHit = True, isBox = False\<rparr>"
  unfolding find_hit_def wall_objects
  by (simp add: wood_override_def plane_defs wall_ray_eq vec_defs Let_def)

lemma wall_planes_tMin:
  "tMin (planes_hit wall_ray (objects_hit (wall_scene sh) wall_ray)) = 3 / 2"
  unfolding wall_objects
  by (simp add: plane_defs wall_ray_eq vec_defs Let_def)


text \<open>
  Claim C10, as the code has it.  A plane test that takes the hit assigns \<open>color\<close>,
  \<open>ka\<close>, \<open>kd\<close>, \<open>ks\<close>, \<open>kr\<close>, \<open>isMetallic\<close> and \<open>roughness\<close> of \<^verbatim>\<open>hitMat\<close>, and the
  floor also \<open>shininess\<close>; the four walls leave \<open>shininess\<close> as it was, and no plane
  assigns \<open>isRefractive\<close> or \<open>eta\<close>.  So when the loops over the objects leave the
  material of a refractive sphere in \<^verbatim>\<open>hitMat\<close> and a plane is strictly nearer, the
  nearest hit is refractive with the index of the sphere, and at every depth below 6
  \<^verbatim>\<open>trace\<close> returns what the refractive branch computes for it.
\<close>

theorem C10_planes_keep_refraction:
  "(floor_step ray st = st
     \<or> (\<exists>col. hitMat (floor_step ray st) =
           (hitMat st)\<lparr>color := col, ka := 0.15, kd := 0.75, ks := 0.15, kr := 0,
                        shininess := 20, isMetallic := False, roughness := 0\<rparr>))
   \<and> (leftWall_step ray st = st
     \<or> hitMat (leftWall_step ray st) =
           (hitMat st)\<lparr>color := Vector3 0.75 0.1 0.1, ka := 0.1, kd := 0.8, ks := 0.05,
                        kr := 0, isMetallic := False, roughness := 0\<rparr>)
   \<and> (rightWall_step ray st = st
     \<or> hitMat (rightWall_step ray st) =
           (hitMat st)\<lparr>color := Vector3 0.1 0.75 0.1, ka := 0.1, kd := 0.8, ks := 0.05,
                        kr := 0, isMetallic := False, roughness := 0\<rparr>)
   \<and> (backWall_step ray st = st
     \<or> hitMat (backWall_step ray st) =
           (hitMat st)\<lparr>color := Vector3 0.85 0.85 0.85, ka := 0.1, kd := 0.8, ks := 0.05,
                        kr := 0, isMetallic := False, roughness := 0\<rparr>)
   \<and> (ceiling_step ray st = st
     \<or> hitMat (ceiling_step ray st) =
           (hitMat st)\<lparr>color := Vector3 0.85 0.85 0.85, ka := 0.1, kd := 0.8, ks := 0.05,
                        kr := 0, isMetallic := False, roughness := 0\<rparr>)
   \<and> isRefractive (hitMat (planes_hit ray st)) = isRefractive (hitMat st)
   \<and> eta (hitMat (planes_hit ray st)) = eta (hitMat st)
   \<and> (depth < 6 \<and> sp \<in> set (spheres sc) \<and> hitMat (objects_hit sc ray) = mat sp
        \<and> isRefractive (mat sp)
        \<and> tMin (planes_hit ray (objects_hit sc ray)) < tMin (objects_hit sc ray) \<longrightarrow>
        find_hit g sc ray = planes_hit ray (objects_hit sc ray)
        \<and> hasHit (find_hit g sc ray) \<and> \<not> isBox (find_hit g sc ray)
        \<and> isRefractive (hitMat (find_hit g sc ray))
        \<and> eta (hitMat (find_hit g sc ray)) = eta (mat sp)
        \<and> trace g sc ray depth s =
            (if sinT2_of ray (find_hit g sc ray) < 1
             then (case trace g sc (refractRay_of ray (find_hit g sc ray)) (depth + 1) s of
                     (refractColor, s1) \<Rightarrow>
                       (case trace g sc (reflectRay_of ray (find_hit g sc ray)) (depth + 1) s1 of
                          (reflectColor, s2) \<Rightarrow>
                            (fresnel_blend (fresnel_of ray (find_hit g sc ray)) refractColor
                               reflectColor, s2)))
             else trace g sc (tirRay_of ray (find_hit g sc ray)) (depth + 1) s))"
proof -
  have steps: "(floor_step ray st = st
     \<or> (\<exists>col. hitMat (floor_step ray st) =
           (hitMat st)\<lparr>color := col, ka := 0.15, kd := 0.75, ks := 0.15, kr := 0,
                        shininess := 20, isMetallic := False, roughness := 0\<rparr>))
   \<and> (leftWall_step ray st = st
     \<or> hitMat (leftWall_step ray st) =
           (hitMat st)\<lparr>color := Vector3 0.75 0.1 0.1, ka := 0.1, kd := 0.8, ks := 0.05,
                        kr := 0, isMetallic := False, roughness := 0\<rparr>)
   \<and> (rightWall_step ray st = st
     \<or> hitMat (rightWall_step ray st) =
           (hitMat st)\<lparr>color := Vector3 0.1 0.75 0.1, ka := 0.1, kd := 0.8, ks := 0.05,
                        kr := 0, isMetallic := False, roughness := 0\<rparr>)
   \<and> (backWall_step ray st = st
     \<or> hitMat (backWall_step ray st) =
           (hitMat st)\<lparr>color := Vector3 0.85 0.85 0.85, ka := 0.1, kd := 0.8, ks := 0.05,
                        kr := 0, isMetallic := False, roughness := 0\<rparr>)
   \<and> (ceiling_step ray st = st
     \<or> hitMat (ceiling_step ray st) =
           (hitMat st)\<lparr>color := Vector3 0.85 0.85 0.85, ka := 0.1, kd := 0.8, ks := 0.05,
                        kr := 0, isMetallic := False, roughness := 0\<rparr>)"
    using floor_step_mat [of ray st] leftWall_step_mat [of ray st] rightWall_step_mat [of ray st]
      backWall_step_mat [of ray st] ceiling_step_mat [of ray st]
    by blast
  have kept: "isRefractive (hitMat (planes_hit ray st)) = isRefractive (hitMat st)
      \<and> eta (hitMat (planes_hit ray st)) = eta (hitMat st)"
    using plane_kept_planes_hit [of st ray] by (simp add: plane_kept_def)
  have tr: "depth < 6 \<and> sp \<in> set (spheres sc) \<and> hitMat (objects_hit sc ray) = mat sp
        \<and> isRefractive (mat sp)
        \<and> tMin (planes_hit ray (objects_hit sc ray)) < tMin (objects_hit sc ray) \<longrightarrow>
        find_hit g sc ray = planes_hit ray (objects_hit sc ray)
        \<and> hasHit (find_hit g sc ray) \<and> \<not> isBox (find_hit g sc ray)
        \<and> isRefractive (hitMat (find_hit g sc ray))
        \<and> eta (hitMat (find_hit g sc ray)) = eta (mat sp)
        \<and> trace g sc ray depth s =
            (if sinT2_of ray (find_hit g sc ray) < 1
             then (case trace g sc (refractRay_of ray (find_hit g sc ray)) (depth + 1) s of
                     (refractColor, s1) \<Rightarrow>
                       (case trace g sc (reflectRay_of ray (find_hit g sc ray)) (depth + 1) s1 of
                          (reflectColor, s2) \<Rightarrow>
                            (fresnel_blend (fresnel_of ray (find_hit g sc ray)) refractColor
                               reflectColor, s2)))
             else trace g sc (tirRay_of ray (find_hit g sc ray)) (depth + 1) s)"
  proof (intro impI)
    assume a: "depth < 6 \<and> sp \<in> set (spheres sc) \<and> hitMat (objects_hit sc ray) = mat sp
        \<and> isRefractive (mat sp)
        \<and> tMin (planes_hit ray (objects_hit sc ray)) < tMin (objects_hit sc ray)"
    let ?p = "planes_hit ray (objects_hit sc ray)"
    from a have ne: "?p \<noteq> objects_hit sc ray" by auto
    with plane_kept_planes_hit [of "objects_hit sc ray" ray]
    have p: "hasHit ?p" "\<not> isBox ?p" "isRefractive (hitMat ?p)" "eta (hitMat ?p) = eta (mat sp)"
      using a by (simp_all add: plane_kept_def)
    have f: "find_hit g sc ray = ?p"
      using p(2) by (simp add: find_hit_def wood_override_def)
    from a have d: "depth < 6" by simp
    have "hasHit (find_hit g sc ray)" "isRefractive (hitMat (find_hit g sc ray))"
      using p f by simp_all
    from trace_refractive [OF d this] f p
    show "find_hit g sc ray = planes_hit ray (objects_hit sc ray)
        \<and> hasHit (find_hit g sc ray) \<and> \<not> isBox (find_hit g sc ray)
        \<and> isRefractive (hitMat (find_hit g sc ray))
        \<and> eta (hitMat (find_hit g sc ray)) = eta (mat sp)
        \<and> trace g sc ray depth s =
            (if sinT2_of ray (find_hit g sc ray) < 1
             then (case trace g sc (refractRay_of ray (find_hit g sc ray)) (depth + 1) s of
                     (refractColor, s1) \<Rightarrow>
                       (case trace g sc (reflectRay_of ray (find_hit g sc ray)) (depth + 1) s1 of
                          (reflectColor, s2) \<Rightarrow>
                            (fresnel_blend (fresnel_of ray (find_hit g sc ray)) refractColor
                               reflectColor, s2)))
             else trace g sc (tirRay_of ray (find_hit g sc ray)) (depth + 1) s)"
      by simp
  qed
  from steps kept tr show ?thesis by blast
qed


text \<open>
  A glass sphere of shininess 100 behind the left wall: the sphere is met at \<open>5/2\<close>, the
  wall at \<open>3/2\<close>; the hit is the wall, refractive with the index \<open>3/2\<close> of the glass, and
  at depth 0 the result is the blend of the two secondary rays.
\<close>

theorem C10_planes_keep_refraction_witness:
  "(0::int) < 6
   \<and> \<lparr>center = Vector3 (- 3) (9 / 10) 0, radius = 1 / 2, mat = glass\<lparr>shininess := 100\<rparr>\<rparr>
       \<in> set (spheres (wall_scene 100))
   \<and> hitMat (objects_hit (wall_scene 100) wall_ray) = glass\<lparr>shininess := 100\<rparr>
   \<and> isRefractive (glass\<lparr>shininess := 100\<rparr>)
   \<and> tMin (planes_hit wall_ray (objects_hit (wall_scene 100) wall_ray))
       < tMin (objects_hit (wall_scene 100) wall_ray)
   \<and> hitNormal (find_hit id_globals (wall_scene 100) wall_ray) = Vector3 1 0 0
   \<and> isRefractive (hitMat (find_hit id_globals (wall_scene 100) wall_ray))
   \<and> eta (hitMat (find_hit id_globals (wall_scene 100) wall_ray)) = 3 / 2
   \<and> trace id_globals (wall_scene 100) wall_ray 0 0 =
       (case trace id_globals (wall_scene 100)
               (refractRay_of wall_ray (find_hit id_globals (wall_scene 100) wall_ray)) 1 0 of
          (refractColor, s1) \<Rightarrow>
            (case trace id_globals (wall_scene 100)
                    (reflectRay_of wall_ray (find_hit id_globals (wall_scene 100) wall_ray))
                    1 s1 of
               (reflectColor, s2) \<Rightarrow>
                 (fresnel_blend (1 / 25) refractColor reflectColor, s2)))"
proof -
  let ?sp = "\<lparr>center = Vector3 (- 3) (9 / 10) 0, radius = 1 / 2,
              mat = glass\<lparr>shininess := 100\<rparr>\<rparr>"
  let ?h = "find_hit id_globals (wall_scene 100) wall_ray"
  have h1: "(0::int) < 6" by simp
  have h2: "?sp \<in> set (spheres (wall_scene 100))" by (simp add: wall_scene_fields)
  have h3: "hitMat (objects_hit (wall_scene 100) wall_ray) = mat ?sp"
    by (simp add: wall_objects)
  have h4: "isRefractive (mat ?sp)" by (simp add: glass_def)
  have h5: "tMin (planes_hit wall_ray (objects_hit (wall_scene 100) wall_ray))
       < tMin (objects_hit (wall_scene 100) wall_ray)"
    unfolding wall_planes_tMin by (simp add: wall_objects)
  have r: "refract_setup wall_ray ?h = (1, Vector3 1 0 0, 3 / 2)"
    unfolding wall_find
    by (simp add: refract_setup_def wall_ray_eq dot_def glass_def default_Material_def Let_def)
  have t: "sinT2_of wall_ray ?h < 1" "fresnel_of wall_ray ?h = 1 / 25"
    by (simp_all add: sinT2_of_def fresnel_of_def r schlick_def Let_def)
  have n: "hitNormal ?h = Vector3 1 0 0" by (simp add: wall_find)
  from C10_planes_keep_refraction [of wall_ray "objects_hit (wall_scene 100) wall_ray" 0 ?sp
      "wall_scene 100" id_globals 0] h1 h2 h3 h4 h5
  have "isRefractive (hitMat ?h) \<and> eta (hitMat ?h) = eta (mat ?sp)
      \<and> trace id_globals (wall_scene 100) wall_ray 0 0 =
            (if sinT2_of wall_ray ?h < 1
             then (case trace id_globals (wall_scene 100) (refractRay_of wall_ray ?h) (0 + 1) 0 of
                     (refractColor, s1) \<Rightarrow>
                       (case trace id_globals (wall_scene 100) (reflectRay_of wall_ray ?h)
                               (0 + 1) s1 of
                          (reflectColor, s2) \<Rightarrow>
                            (fresnel_blend (fresnel_of wall_ray ?h) refractColor
                               reflectColor, s2)))
             else trace id_globals (wall_scene 100) (tirRay_of wall_ray ?h) (0 + 1) 0)"
    by blast
  then have "isRefractive (hitMat ?h) \<and> eta (hitMat ?h) = 3 / 2
      \<and> trace id_globals (wall_scene 100) wall_ray 0 0 =
       (case trace id_globals (wall_scene 100) (refractRay_of wall_ray ?h) 1 0 of
          (refractColor, s1) \<Rightarrow>
            (case trace id_globals (wall_scene 100) (reflectRay_of wall_ray ?h) 1 s1 of
               (reflectColor, s2) \<Rightarrow>
                 (fresnel_blend (1 / 25) refractColor reflectColor, s2)))"
    by (simp add: t glass_def default_Material_def)
  with h1 h2 h3 h4 h5 n show ?thesis by simp
qed

text \<open>
  The claim as stated fails on two counts at this scene.  The hit is the left wall, yet
  the \<open>shininess\<close> of its material is that of the sphere behind it (100, or 50 for a
  sphere of shininess 50): the override of a wall does not assign it.  And at depth 6
  the hit, though refractive, receives the local illumination.
\<close>

theorem C10_wall_counterexample:
  "tMin (objects_hit (wall_scene 100) wall_ray) = 5 / 2
   \<and> hitMat (objects_hit (wall_scene 100) wall_ray) = glass\<lparr>shininess := 100\<rparr>
   \<and> tMin (find_hit id_globals (wall_scene 100) wall_ray) = 3 / 2
   \<and> hitPoint (find_hit id_globals (wall_scene 100) wall_ray) = Vector3 (- 3 / 2) (9 / 10) 0
   \<and> hitNormal (find_hit id_globals (wall_scene 100) wall_ray) = Vector3 1 0 0
   \<and> find_hit id_globals (wall_scene 100) wall_ray =
       leftWall_step wall_ray (objects_hit (wall_scene 100) wall_ray)
   \<and> shininess (hitMat (find_hit id_globals (wall_scene 100) wall_ray)) = 100
   \<and> shininess (hitMat (find_hit id_globals (wall_scene 50) wall_ray)) = 50
   \<and> isRefractive (hitMat (find_hit id_globals (wall_scene 100) wall_ray))
   \<and> trace id_globals (wall_scene 100) wall_ray 6 0 =
       (local_illum (wall_scene 100) (find_hit id_globals (wall_scene 100) wall_ray), 0)"
proof -
  let ?h = "find_hit id_globals (wall_scene 100) wall_ray"
  have f: "hasHit ?h" "isRefractive (hitMat ?h)" "kr (hitMat ?h) = 0"
    by (simp_all add: wall_find glass_def)
  have l: "trace id_globals (wall_scene 100) wall_ray 6 0 = (local_illum (wall_scene 100) ?h, 0)"
    using f by (intro trace_local) simp_all
  have w: "?h = leftWall_step wall_ray (objects_hit (wall_scene 100) wall_ray)"
    unfolding wall_find wall_objects
    by (simp add: leftWall_step_def planeIntersect_def wall_update_def wall_ray_eq vec_defs Let_def)
  have o: "tMin (objects_hit (wall_scene 100) wall_ray) = 5 / 2"
    "hitMat (objects_hit (wall_scene 100) wall_ray) = glass\<lparr>shininess := 100\<rparr>"
    by (simp_all add: wall_objects)
  have v: "tMin ?h = 3 / 2" "hitPoint ?h = Vector3 (- 3 / 2) (9 / 10) 0"
    "hitNormal ?h = Vector3 1 0 0" "shininess (hitMat ?h) = 100"
    "shininess (hitMat (find_hit id_globals (wall_scene 50) wall_ray)) = 50"
    by (simp_all add: wall_find)
  from o v w f(2) l show ?thesis by blast
qed

end
